theory Spec2Isabelle
  imports Complex_Main "HOL-Library.Word"
begin

section \<open>The wire side: tftypes.Type, tftypes.Value, math/big.Float\<close>

text \<open>
  \<^verbatim>\<open>tftypes.Type\<close>: the structural wire types of the protocol. \<^verbatim>\<open>Value.Type()\<close> may be the
  nil interface, so a value carries a \<open>tftype option\<close>.
\<close>

datatype tftype =
    TfNumber
  | TfString
  | TfBool
  | TfDynamicPseudoType
  | TfList tftype
  | TfSet tftype
  | TfMap tftype
  | TfObject "(string \<times> tftype) list"
  | TfTuple "tftype list"

text \<open>
  \<^verbatim>\<open>Type.Equal\<close> is only ever called as \<^verbatim>\<open>in.Type().Equal(tftypes.Number)\<close>: a primitive
  equals \<^verbatim>\<open>Number\<close> iff it is \<^verbatim>\<open>Number\<close>, every other kind of type is different from it.
\<close>

definition tftype_Equal :: "tftype \<Rightarrow> tftype \<Rightarrow> bool" where
  "tftype_Equal t o' = (t = o')"

text \<open>
  \<^verbatim>\<open>*big.Float\<close>, by its \<^verbatim>\<open>form\<close>: zero (signed), finite or infinite (signed). A finite Float
  \<open>BigFinite neg m e\<close> is \<open>(-1)^neg * m * 2^e\<close>, with a mantissa \<open>m > 0\<close> of any length: the
  precision, rounding mode and accuracy fields play no part in what is modelled here.
  Go keeps the mantissa as a binary fraction \<open>0.5 \<le> mant < 1\<close> and an exponent \<^verbatim>\<open>x.exp\<close>,
  which is \<open>e + bitLen m\<close> here. A big Float is never a NaN.
\<close>

datatype bigfloat =
    BigZero bool
  | BigFinite bool nat int
  | BigInf bool

fun bigfloat_ok :: "bigfloat \<Rightarrow> bool" where
  "bigfloat_ok (BigFinite neg m e) = (0 < m)"
| "bigfloat_ok _ = True"

text \<open>
  \<^verbatim>\<open>tftypes.Value\<close> is \<^verbatim>\<open>struct { typ Type; value interface{} }\<close>. The payload is nil (a null
  value), the \<^verbatim>\<open>unknown\<close> marker, or the Go value of the wire type: a \<^verbatim>\<open>*big.Float\<close> for a
  Number.
\<close>

datatype tfvalue = TfValue (tf_typ: "tftype option") (tf_value: tfpayload)
and tfpayload =
    PNil
  | PUnknown
  | PBigFloat bigfloat
  | PString string
  | PBool bool
  | PList "tfvalue list"
  | PMap "(string \<times> tfvalue) list"

definition IsKnown :: "tfvalue \<Rightarrow> bool" where
  "IsKnown v = (tf_value v \<noteq> PUnknown)"

definition IsNull :: "tfvalue \<Rightarrow> bool" where
  "IsNull v = (tf_value v = PNil)"

text \<open>
  The values \<^verbatim>\<open>tftypes.NewValue\<close> builds for a Number: null, unknown, or a big Float.
\<close>

definition number_value_ok :: "tfvalue \<Rightarrow> bool" where
  "number_value_ok v =
     (tf_typ v = Some TfNumber \<and>
      (case tf_value v of
         PNil \<Rightarrow> True
       | PUnknown \<Rightarrow> True
       | PBigFloat x \<Rightarrow> bigfloat_ok x
       | _ \<Rightarrow> False))"

text \<open>
  \<^verbatim>\<open>in.As(&value)\<close> with \<^verbatim>\<open>value *big.Float\<close>: a null value leaves the nil pointer, a Number
  payload is copied, anything else is the error
  \<^verbatim>\<open>can't unmarshal <type> into *big.Float, expected *big.Float\<close>.
\<close>

datatype tferror = CantUnmarshalBigFloat "tftype option"

definition As_BigFloat :: "tfvalue \<Rightarrow> tferror + bigfloat option" where
  "As_BigFloat v =
     (case tf_value v of
        PNil \<Rightarrow> Inr None
      | PBigFloat n \<Rightarrow> Inr (Some n)
      | _ \<Rightarrow> Inl (CantUnmarshalBigFloat (tf_typ v)))"

section \<open>float64 and the narrowing \<^verbatim>\<open>(*big.Float).Float64\<close>\<close>

text \<open>
  A Go \<^verbatim>\<open>float64\<close> by its three IEEE 754 fields, as \<^verbatim>\<open>math.Float64frombits(sign | bexp | mant)\<close>
  assembles them: the sign bit, the 11 bits of the biased exponent, the 52 bits of the
  mantissa.
\<close>

record float64 =
  f64_sign :: bool
  f64_bexp :: "11 word"
  f64_mant :: "52 word"

definition mk_float64 :: "bool \<Rightarrow> nat \<Rightarrow> nat \<Rightarrow> float64" where
  "mk_float64 s be m = \<lparr> f64_sign = s, f64_bexp = of_nat be, f64_mant = of_nat m \<rparr>"

definition f64_zero :: "bool \<Rightarrow> float64" where
  "f64_zero s = mk_float64 s 0 0"

definition f64_inf :: "bool \<Rightarrow> float64" where
  "f64_inf s = mk_float64 s 2047 0"

definition f64_smallest_nonzero :: "bool \<Rightarrow> float64" where
  "f64_smallest_nonzero s = mk_float64 s 0 1"

definition f64_nan :: float64 where
  "f64_nan = mk_float64 False 2047 1"

definition f64_is_nan :: "float64 \<Rightarrow> bool" where
  "f64_is_nan f = (f64_bexp f = 2047 \<and> f64_mant f \<noteq> 0)"

definition f64_is_inf :: "float64 \<Rightarrow> bool" where
  "f64_is_inf f = (f64_bexp f = 2047 \<and> f64_mant f = 0)"

definition f64_is_zero :: "float64 \<Rightarrow> bool" where
  "f64_is_zero f = (f64_bexp f = 0 \<and> f64_mant f = 0)"

text \<open>
  A finite nonzero float64 is \<open>(-1)^sign * f64_significand * 2^f64_exponent\<close>: a denormal
  (biased exponent 0) has no implicit leading bit and the exponent -1074.
\<close>

definition f64_significand :: "float64 \<Rightarrow> nat" where
  "f64_significand f =
     (if f64_bexp f = 0 then unat (f64_mant f) else 2 ^ 52 + unat (f64_mant f))"

definition f64_exponent :: "float64 \<Rightarrow> int" where
  "f64_exponent f =
     (if f64_bexp f = 0 then - 1074 else int (unat (f64_bexp f)) - 1075)"

text \<open>Go's \<^verbatim>\<open>==\<close> on float64: a NaN equals nothing, the two zeros are equal.\<close>

definition f64_eq :: "float64 \<Rightarrow> float64 \<Rightarrow> bool" where
  "f64_eq a b =
     (\<not> f64_is_nan a \<and> \<not> f64_is_nan b \<and> (a = b \<or> (f64_is_zero a \<and> f64_is_zero b)))"

datatype accuracy = Below | Exact | Above

text \<open>\<^verbatim>\<open>nat.bitLen\<close>: the length of a mantissa in bits.\<close>

fun bitLen :: "nat \<Rightarrow> nat" where
  "bitLen n = (if n = 0 then 0 else Suc (bitLen (n div 2)))"

declare bitLen.simps [simp del]

text \<open>
  \<^verbatim>\<open>r.prec = p; r.Set(x)\<close>: the mantissa rounded to \<open>p > 0\<close> bits, to nearest, ties to even.
  The result is the new mantissa, the new exponent, and whether the magnitude went down
  (\<open>Below\<close>), stayed (\<open>Exact\<close>) or went up (\<open>Above\<close>). A mantissa rounded up to \<open>2^p\<close> is
  renormalised to \<open>p\<close> bits.
\<close>

definition round_prec :: "nat \<Rightarrow> nat \<Rightarrow> int \<Rightarrow> nat \<times> int \<times> accuracy" where
  "round_prec p m e =
     (let l = bitLen m in
      if l \<le> p then (m, e, Exact)
      else
        let s = l - p; q = m div 2 ^ s; r = m mod 2 ^ s; h = 2 ^ (s - 1) in
        if r = 0 then (q, e + int s, Exact)
        else if r < h \<or> (r = h \<and> even q) then (q, e + int s, Below)
        else if q + 1 = 2 ^ p then (2 ^ (p - 1), e + int s + 1, Above)
        else (q + 1, e + int s, Above))"

text \<open>\<^verbatim>\<open>makeAcc(inc != z.neg)\<close>: the accuracy of the signed value from that of the magnitude.\<close>

fun signed_acc :: "bool \<Rightarrow> accuracy \<Rightarrow> accuracy" where
  "signed_acc neg Exact = Exact"
| "signed_acc neg Above = (if neg then Below else Above)"
| "signed_acc neg Below = (if neg then Above else Below)"

text \<open>
  \<^verbatim>\<open>msb64(r.mant) >> (64 - p)\<close>: the mantissa aligned so that its leading bit is bit \<open>p - 1\<close>.
\<close>

definition top_bits :: "int \<Rightarrow> nat \<Rightarrow> nat" where
  "top_bits p m =
     (let k = p - int (bitLen m) in
      if 0 \<le> k then m * 2 ^ nat k else m div 2 ^ nat (- k))"

definition mbits :: int where "mbits = 52"
definition bias :: int where "bias = 1023"
definition emin :: int where "emin = 1 - bias"
definition emax :: int where "emax = bias"

text \<open>
  \<^verbatim>\<open>func (x *Float) Float64() (float64, Accuracy)\<close> of math/big, as the library documents
  and computes it: the nearest float64 and whether it is below, exactly at or above \<open>x\<close>;
  a finite \<open>x\<close> too small underflows to a zero or to the smallest denormal, one too large
  overflows to an infinity.
\<close>

definition Float64_finite :: "bool \<Rightarrow> nat \<Rightarrow> int \<Rightarrow> float64 \<times> accuracy" where
  "Float64_finite neg m ex =
     (let e = ex + int (bitLen m) - 1;
          p = (if e < emin then mbits + 1 - emin + e else mbits + 1) in
      if e < emin \<and> (p < 0 \<or> (p = 0 \<and> m = 2 ^ (bitLen m - 1))) then
        (f64_zero neg, if neg then Above else Below)
      else if e < emin \<and> p = 0 then
        (f64_smallest_nonzero neg, if neg then Below else Above)
      else
        (case round_prec (nat p) m ex of (rm, rex, acc) \<Rightarrow>
           let e' = rex + int (bitLen rm) - 1 in
           if emax < e' then (f64_inf neg, if neg then Below else Above)
           else if e' < emin then
             (mk_float64 neg 0 (top_bits (mbits + 1 - emin + e') rm), signed_acc neg acc)
           else
             (mk_float64 neg (nat (e' + bias)) (top_bits (mbits + 1) rm mod 2 ^ 52),
              signed_acc neg acc)))"

fun Float64 :: "bigfloat \<Rightarrow> float64 \<times> accuracy" where
  "Float64 (BigFinite neg m ex) = Float64_finite neg m ex"
| "Float64 (BigZero neg) = (f64_zero neg, Exact)"
| "Float64 (BigInf neg) = (f64_inf neg, Exact)"

text \<open>
  A Go call either returns or panics. \<^verbatim>\<open>value.Float64()\<close> on a nil \<^verbatim>\<open>*big.Float\<close> reads through
  the nil pointer.
\<close>

datatype panic = NilPointerDereference

datatype 'a outcome = Returns 'a | Panics panic

fun Float64_ptr :: "bigfloat option \<Rightarrow> (float64 \<times> accuracy) outcome" where
  "Float64_ptr None = Panics NilPointerDereference"
| "Float64_ptr (Some x) = Returns (Float64 x)"

section \<open>The framework side: paths, diagnostics, values, types\<close>

text \<open>\<^verbatim>\<open>path.Path\<close>: the steps from the root of the schema to an attribute.\<close>

datatype path_step =
    PathStepAttributeName string
  | PathStepElementKeyInt int
  | PathStepElementKeyString string

type_synonym path = "path_step list"

text \<open>
  A text built by \<^verbatim>\<open>fmt.Sprintf\<close> or \<^verbatim>\<open>fmt.Errorf\<close>: the literal pieces of the format string
  and, in their places, the verbs with their arguments. What \<^verbatim>\<open>fmt\<close> prints for an argument
  is left to \<^verbatim>\<open>fmt\<close>.
\<close>

datatype msg_part =
    Lit string
  | Verb_T_Value tfvalue
  | Verb_v_Value tfvalue
  | Verb_s_Error tferror
  | Verb_s_BigFloat "bigfloat option"

type_synonym message = "msg_part list"

datatype severity = SeverityError | SeverityWarning

record diagnostic =
  d_severity :: severity
  d_summary :: string
  d_detail :: message
  d_path :: path

type_synonym diagnostics = "diagnostic list"

text \<open>
  Modelled from the spec: \<^verbatim>\<open>diag.NewAttributeErrorDiagnostic\<close> and
  \<^verbatim>\<open>Diagnostics.AddAttributeError\<close> of package \<^verbatim>\<open>diag\<close>, which is not among the sources:
  a diagnostic is \<open>{severity, summary, detail, attribute path}\<close> and the collector is an
  ordered sequence that is only appended to.
\<close>

definition NewAttributeErrorDiagnostic :: "path \<Rightarrow> string \<Rightarrow> message \<Rightarrow> diagnostic" where
  "NewAttributeErrorDiagnostic p summary detail =
     \<lparr> d_severity = SeverityError, d_summary = summary, d_detail = detail, d_path = p \<rparr>"

definition AddAttributeError :: "diagnostics \<Rightarrow> path \<Rightarrow> string \<Rightarrow> message \<Rightarrow> diagnostics" where
  "AddAttributeError diags p summary detail =
     diags @ [NewAttributeErrorDiagnostic p summary detail]"

text \<open>
  Modelled from the spec: \<^verbatim>\<open>Float64Value\<close> and its constructors \<^verbatim>\<open>NewFloat64Null\<close>,
  \<^verbatim>\<open>NewFloat64Unknown\<close>, \<^verbatim>\<open>NewFloat64Value\<close> of \<^verbatim>\<open>float64_value.go\<close>, which is not among the
  sources: a value is Null, Unknown or Known with a float64 payload.
\<close>

datatype value_state = ValueStateNull | ValueStateUnknown | ValueStateKnown

record Float64Value =
  fv_state :: value_state
  fv_value :: float64

definition NewFloat64Null :: Float64Value where
  "NewFloat64Null = \<lparr> fv_state = ValueStateNull, fv_value = f64_zero False \<rparr>"

definition NewFloat64Unknown :: Float64Value where
  "NewFloat64Unknown = \<lparr> fv_state = ValueStateUnknown, fv_value = f64_zero False \<rparr>"

definition NewFloat64Value :: "float64 \<Rightarrow> Float64Value" where
  "NewFloat64Value f = \<lparr> fv_state = ValueStateKnown, fv_value = f \<rparr>"

text \<open>
  \<^verbatim>\<open>attr.Type\<close>: the type descriptors an \<^verbatim>\<open>Equal\<close> may be handed. \<open>EmbeddingType n t\<close> is a
  struct type named \<open>n\<close> that embeds the type \<open>t\<close> and declares no method of its own, as in
  \<^verbatim>\<open>type CustomListType struct { types.ListType }\<close>. An interface value may be nil.
\<close>

datatype attr_type =
    BoolType
  | Float64Type
  | Int64Type
  | NumberType
  | StringType
  | ListType attr_type
  | SetType attr_type
  | MapType attr_type
  | ObjectType "(string \<times> attr_type) list"
  | TupleType "attr_type list"
  | EmbeddingType string attr_type

section \<open>Float64Type\<close>

text \<open>\<^verbatim>\<open>_, ok := o.(Float64Type); return ok\<close>: the dynamic type of \<open>o\<close> is \<^verbatim>\<open>Float64Type\<close> itself.\<close>

fun Float64Type_Equal :: "attr_type option \<Rightarrow> bool" where
  "Float64Type_Equal (Some Float64Type) = True"
| "Float64Type_Equal _ = False"

definition Float64Type_String :: string where
  "Float64Type_String = ''basetypes.Float64Type''"

definition Float64Type_TerraformType :: tftype where
  "Float64Type_TerraformType = TfNumber"

definition validation_error_summary :: string where
  "validation_error_summary = ''Float64 Type Validation Error''"

definition provider_error_prefix :: string where
  "provider_error_prefix =
     ''An unexpected error was encountered trying to validate an attribute value. '' @
     ''This is always an error in the provider. '' @
     ''Please report the following to the provider developer:'' @ [CHR 0x0A, CHR 0x0A]"

definition cannot_be_represented :: "bigfloat option \<Rightarrow> message" where
  "cannot_be_represented value =
     [Lit ''Value '', Verb_s_BigFloat value,
      Lit '' cannot be represented as a 64-bit floating point.'']"

definition Float64Type_Validate :: "tfvalue \<Rightarrow> path \<Rightarrow> diagnostics outcome" where
  "Float64Type_Validate in' p =
     (let diags = [] in
      case tf_typ in' of
        None \<Rightarrow> Returns diags
      | Some t \<Rightarrow>
          if \<not> tftype_Equal t TfNumber then
            Returns (AddAttributeError diags p validation_error_summary
              [Lit provider_error_prefix, Lit ''Expected Number value, received '',
               Verb_T_Value in', Lit '' with value: '', Verb_v_Value in'])
          else if \<not> IsKnown in' \<or> IsNull in' then Returns diags
          else
            (case As_BigFloat in' of
               Inl err \<Rightarrow>
                 Returns (AddAttributeError diags p validation_error_summary
                   [Lit provider_error_prefix, Lit ''Cannot convert value to big.Float: '',
                    Verb_s_Error err])
             | Inr value \<Rightarrow>
                 (case Float64_ptr value of
                    Panics pn \<Rightarrow> Panics pn
                  | Returns (f, accuracy) \<Rightarrow>
                      if accuracy \<noteq> Exact then
                        Returns (AddAttributeError diags p validation_error_summary
                          (cannot_be_represented value))
                      else Returns diags)))"

datatype go_error = TfError tferror | Errorf message

text \<open>
  The result is Go's pair \<^verbatim>\<open>(attr.Value, error)\<close>: \<open>None\<close> is \<^verbatim>\<open>nil\<close>.
\<close>

definition Float64Type_ValueFromTerraform ::
  "tfvalue \<Rightarrow> (Float64Value option \<times> go_error option) outcome" where
  "Float64Type_ValueFromTerraform in' =
     (if \<not> IsKnown in' then Returns (Some NewFloat64Unknown, None)
      else if IsNull in' then Returns (Some NewFloat64Null, None)
      else
        (case As_BigFloat in' of
           Inl err \<Rightarrow> Returns (None, Some (TfError err))
         | Inr bigF \<Rightarrow>
             (case Float64_ptr bigF of
                Panics pn \<Rightarrow> Panics pn
              | Returns (f, accuracy) \<Rightarrow>
                  if accuracy \<noteq> Exact then
                    Returns (None, Some (Errorf (cannot_be_represented bigF)))
                  else Returns (Some (NewFloat64Value f), None))))"

section \<open>Custom types by embedding\<close>

text \<open>
  The four operations of a type as a method set. A custom type is a struct that embeds a
  base type, as \<^verbatim>\<open>type CustomListType struct { types.ListType }\<close> does, and may declare
  methods of its own, as \<^verbatim>\<open>CustomListType.ValueFromTerraform\<close>: Go selects the method the
  struct declares, and promotes the method of the embedded field where it declares none.
\<close>

record type_methods =
  m_Equal :: "attr_type option \<Rightarrow> bool"
  m_TerraformType :: tftype
  m_Validate :: "tfvalue \<Rightarrow> path \<Rightarrow> diagnostics outcome"
  m_ValueFromTerraform :: "tfvalue \<Rightarrow> (Float64Value option \<times> go_error option) outcome"

record declared_methods =
  dm_Equal :: "(attr_type option \<Rightarrow> bool) option"
  dm_TerraformType :: "tftype option"
  dm_Validate :: "(tfvalue \<Rightarrow> path \<Rightarrow> diagnostics outcome) option"
  dm_ValueFromTerraform ::
    "(tfvalue \<Rightarrow> (Float64Value option \<times> go_error option) outcome) option"

definition Float64Type_methods :: type_methods where
  "Float64Type_methods =
     \<lparr> m_Equal = Float64Type_Equal,
       m_TerraformType = Float64Type_TerraformType,
       m_Validate = Float64Type_Validate,
       m_ValueFromTerraform = Float64Type_ValueFromTerraform \<rparr>"

definition embedding :: "type_methods \<Rightarrow> declared_methods \<Rightarrow> type_methods" where
  "embedding base own =
     \<lparr> m_Equal = (case dm_Equal own of None \<Rightarrow> m_Equal base | Some f \<Rightarrow> f),
       m_TerraformType =
         (case dm_TerraformType own of None \<Rightarrow> m_TerraformType base | Some t \<Rightarrow> t),
       m_Validate = (case dm_Validate own of None \<Rightarrow> m_Validate base | Some f \<Rightarrow> f),
       m_ValueFromTerraform =
         (case dm_ValueFromTerraform own of
            None \<Rightarrow> m_ValueFromTerraform base
          | Some f \<Rightarrow> f) \<rparr>"

definition no_methods :: declared_methods where
  "no_methods =
     \<lparr> dm_Equal = None, dm_TerraformType = None, dm_Validate = None,
       dm_ValueFromTerraform = None \<rparr>"

definition CustomFloat64Type_methods :: type_methods where
  "CustomFloat64Type_methods = embedding Float64Type_methods no_methods"

section \<open>Exact representation and the way back to the wire\<close>

text \<open>The rational number \<open>m * 2^e\<close>.\<close>

definition dyadic :: "nat \<Rightarrow> int \<Rightarrow> rat" where
  "dyadic m e = (if 0 \<le> e then of_nat m * 2 ^ nat e else of_nat m / 2 ^ nat (- e))"

text \<open>
  A float64 holds a big Float exactly: the same sign, and the same zero, the same
  infinity or the same finite number. A NaN holds no big Float.
\<close>

fun f64_represents :: "float64 \<Rightarrow> bigfloat \<Rightarrow> bool" where
  "f64_represents f (BigZero neg) = (f64_is_zero f \<and> f64_sign f = neg)"
| "f64_represents f (BigInf neg) = (f64_is_inf f \<and> f64_sign f = neg)"
| "f64_represents f (BigFinite neg m e) =
     (f64_bexp f \<noteq> 2047 \<and> f64_sign f = neg \<and>
      dyadic (f64_significand f) (f64_exponent f) = dyadic m e)"

text \<open>
  The decimal \<^verbatim>\<open>1.79769313486231570814527423731704356798070e+1000\<close> is the integer
  \<open>179769313486231570814527423731704356798070 * 10^959\<close>, that is the finite big Float
  with the mantissa \<open>179769313486231570814527423731704356798070 * 5^959\<close> and the
  exponent 959.
\<close>

definition decimal_1_797e1000 :: bigfloat where
  "decimal_1_797e1000 =
     BigFinite False (179769313486231570814527423731704356798070 * 5 ^ 959) 959"

text \<open>
  The same decimal held in a big Float of \<open>prec\<close> bits, rounded to nearest, ties to even,
  as a wire Number read at a given precision holds it.
\<close>

definition decimal_1_797e1000_at :: "nat \<Rightarrow> bigfloat" where
  "decimal_1_797e1000_at prec =
     (case round_prec prec (179769313486231570814527423731704356798070 * 5 ^ 959) 959 of
        (rm, rex, acc) \<Rightarrow> BigFinite False rm rex)"

text \<open>
  Modelled from the spec: \<^verbatim>\<open>Float64Value.ToTerraformValue\<close> and \<^verbatim>\<open>Float64Value.Equal\<close> of
  \<^verbatim>\<open>float64_value.go\<close>, which is not among the sources. \<^verbatim>\<open>ToWire\<close> is the inverse of
  decoding: a Null value is the null Number, an Unknown value the unknown Number, a Known
  value the Number whose arbitrary-precision payload is the number the float64 holds
  (\<open>big_of_float64\<close>); a NaN is no number, so a Known NaN has no wire value. \<^verbatim>\<open>Equal\<close>
  compares variant for variant: the states, and for two Known values the payloads, as Go's
  \<^verbatim>\<open>==\<close> does.
\<close>

definition big_of_float64 :: "float64 \<Rightarrow> bigfloat option" where
  "big_of_float64 f =
     (if f64_is_nan f then None
      else if f64_is_zero f then Some (BigZero (f64_sign f))
      else if f64_is_inf f then Some (BigInf (f64_sign f))
      else Some (BigFinite (f64_sign f) (f64_significand f) (f64_exponent f)))"

definition Float64Value_ToTerraformValue :: "Float64Value \<Rightarrow> tfvalue option" where
  "Float64Value_ToTerraformValue v =
     (case fv_state v of
        ValueStateKnown \<Rightarrow>
          (case big_of_float64 (fv_value v) of
             None \<Rightarrow> None
           | Some x \<Rightarrow> Some (TfValue (Some TfNumber) (PBigFloat x)))
      | ValueStateNull \<Rightarrow> Some (TfValue (Some TfNumber) PNil)
      | ValueStateUnknown \<Rightarrow> Some (TfValue (Some TfNumber) PUnknown))"

definition Float64Value_Equal :: "Float64Value \<Rightarrow> Float64Value \<Rightarrow> bool" where
  "Float64Value_Equal a b =
     (if fv_state a \<noteq> fv_state b then False
      else if fv_state a \<noteq> ValueStateKnown then True
      else f64_eq (fv_value a) (fv_value b))"

text \<open>
  The round trip of a value: it has a wire value, decoding that wire value returns a
  value and no error, and the value returned equals the one that was encoded.
\<close>

definition round_trips :: "Float64Value \<Rightarrow> bool" where
  "round_trips v =
     (case Float64Value_ToTerraformValue v of
        None \<Rightarrow> False
      | Some w \<Rightarrow>
          (case Float64Type_ValueFromTerraform w of
             Returns (Some v', None) \<Rightarrow> Float64Value_Equal v' v
           | _ \<Rightarrow> False))"

section \<open>The text of a narrowing failure\<close>

text \<open>
  \<^verbatim>\<open>decimal\<close> of math/big: a number \<open>0.mant * 10^exp\<close>, its digits without trailing zeros.
  \<^verbatim>\<open>decimal.init\<close> gives the exact decimal of a mantissa and a binary exponent.
\<close>

datatype decimal = Decimal (dec_mant: "nat list") (dec_exp: int)

fun decimal_digits :: "nat \<Rightarrow> nat list" where
  "decimal_digits n = (if n < 10 then [n] else decimal_digits (n div 10) @ [n mod 10])"

declare decimal_digits.simps [simp del]

definition trim :: "nat list \<Rightarrow> nat list" where
  "trim ds = rev (dropWhile (\<lambda>d. d = 0) (rev ds))"

definition decimal_init :: "nat \<Rightarrow> int \<Rightarrow> decimal" where
  "decimal_init m shift =
     (if 0 \<le> shift then
        (let ds = decimal_digits (m * 2 ^ nat shift) in Decimal (trim ds) (int (length ds)))
      else
        (let ds = decimal_digits (m * 5 ^ nat (- shift)) in
         Decimal (trim ds) (int (length ds) - (- shift))))"

text \<open>
  \<^verbatim>\<open>decimal.round(n)\<close>: to \<open>n\<close> digits, to nearest, a tie to the even digit
  (\<^verbatim>\<open>shouldRoundUp\<close>, \<^verbatim>\<open>roundUp\<close>, \<^verbatim>\<open>roundDown\<close>).
\<close>

definition shouldRoundUp :: "nat list \<Rightarrow> nat \<Rightarrow> bool" where
  "shouldRoundUp ds n =
     (if ds ! n = 5 \<and> n + 1 = length ds then 0 < n \<and> odd (ds ! (n - 1))
      else 5 \<le> ds ! n)"

definition roundUp :: "decimal \<Rightarrow> nat \<Rightarrow> decimal" where
  "roundUp d n =
     (let pre = rev (dropWhile (\<lambda>c. 9 \<le> c) (rev (take n (dec_mant d)))) in
      if pre = [] then Decimal [1] (dec_exp d + 1)
      else Decimal (butlast pre @ [last pre + 1]) (dec_exp d))"

definition roundDown :: "decimal \<Rightarrow> nat \<Rightarrow> decimal" where
  "roundDown d n =
     (let ds = trim (take n (dec_mant d)) in
      Decimal ds (if ds = [] then 0 else dec_exp d))"

definition decimal_round :: "decimal \<Rightarrow> nat \<Rightarrow> decimal" where
  "decimal_round d n =
     (if length (dec_mant d) \<le> n then d
      else if shouldRoundUp (dec_mant d) n then roundUp d n
      else roundDown d n)"

definition digit_char :: "nat \<Rightarrow> char" where
  "digit_char d = ''0123456789'' ! d"

definition digits_text :: "nat list \<Rightarrow> string" where
  "digits_text ds = map digit_char ds"

text \<open>
  \<^verbatim>\<open>fmtE\<close>: one digit, a point and \<open>prec\<close> digits, then the exponent with its sign and at least
  two digits. \<^verbatim>\<open>fmtF\<close>: the integer part, then a point and \<open>prec\<close> digits.
\<close>

definition fmtE :: "nat \<Rightarrow> decimal \<Rightarrow> string" where
  "fmtE prec d =
     (let mant = dec_mant d;
          first = (if mant = [] then [0] else [hd mant]);
          more = take prec (tl mant);
          frac = (if 0 < prec then ''.'' @ digits_text (more @ replicate (prec - length more) 0)
                  else []);
          ex = (if mant = [] then 0 else dec_exp d - 1) in
      digits_text first @ frac @ ''e'' @ (if ex < 0 then ''-'' else ''+'') @
      (if \<bar>ex\<bar> < 10 then ''0'' else []) @ digits_text (decimal_digits (nat \<bar>ex\<bar>)))"

definition decimal_at :: "decimal \<Rightarrow> int \<Rightarrow> nat" where
  "decimal_at d i =
     (if 0 \<le> i \<and> i < int (length (dec_mant d)) then dec_mant d ! nat i else 0)"

definition fmtF :: "nat \<Rightarrow> decimal \<Rightarrow> string" where
  "fmtF prec d =
     (let mant = dec_mant d;
          whole = (if 0 < dec_exp d then
                     (let m = min (length mant) (nat (dec_exp d)) in
                      digits_text (take m mant @ replicate (nat (dec_exp d) - m) 0))
                   else ''0'');
          frac = (if 0 < prec then
                    ''.'' @ digits_text (map (\<lambda>i. decimal_at d (dec_exp d + int i)) [0..<prec])
                  else []) in
      whole @ frac)"

text \<open>
  \<^verbatim>\<open>x.Text('g', prec)\<close> for \<open>prec > 0\<close>: the sign, then \<^verbatim>\<open>Inf\<close>, or the exact decimal of \<open>x\<close>
  rounded to \<open>prec\<close> digits and printed by \<^verbatim>\<open>fmtE\<close> when its exponent is below -4 or not
  below the precision, by \<^verbatim>\<open>fmtF\<close> otherwise. \<^verbatim>\<open>x.String()\<close> is \<^verbatim>\<open>x.Text('g', 10)\<close>.
\<close>

definition format_g :: "nat \<Rightarrow> decimal \<Rightarrow> string" where
  "format_g prec d0 =
     (let d = decimal_round d0 prec;
          len = length (dec_mant d);
          eprec = (if len < prec \<and> dec_exp d \<le> int len then len else prec);
          ex = dec_exp d - 1 in
      if ex < - 4 \<or> int eprec \<le> ex then fmtE (min prec len - 1) d
      else fmtF (nat (int (if dec_exp d < int prec then len else prec) - dec_exp d)) d)"

fun Float_Text_g :: "bigfloat \<Rightarrow> nat \<Rightarrow> string" where
  "Float_Text_g (BigInf neg) prec = (if neg then ''-Inf'' else ''+Inf'')"
| "Float_Text_g (BigZero neg) prec = (if neg then ''-'' else []) @ format_g prec (Decimal [] 0)"
| "Float_Text_g (BigFinite neg m e) prec =
     (if neg then ''-'' else []) @ format_g prec (decimal_init m e)"

definition Float_String :: "bigfloat \<Rightarrow> string" where
  "Float_String x = Float_Text_g x 10"

text \<open>
  What \<^verbatim>\<open>fmt\<close> prints for the verb \<^verbatim>\<open>%s\<close> and a \<^verbatim>\<open>*big.Float\<close>: \<^verbatim>\<open>Float.Format\<close> has no verb
  \<^verbatim>\<open>s\<close> and prints the bad-verb form around \<^verbatim>\<open>x.String()\<close>; \<^verbatim>\<open>fmt\<close> prints a nil receiver as
  \<^verbatim>\<open><nil>\<close>.
\<close>

definition Format_s_BigFloat :: "bigfloat option \<Rightarrow> string" where
  "Format_s_BigFloat x =
     (case x of
        None \<Rightarrow> ''<nil>''
      | Some b \<Rightarrow> ''%!s('' @ ''*big.Float='' @ Float_String b @ '')'')"

text \<open>
  The text of a message, where every piece of it is a literal or a big Float under
  \<^verbatim>\<open>%s\<close>; what \<^verbatim>\<open>fmt\<close> prints for a \<^verbatim>\<open>tftypes.Value\<close> or for the error of \<^verbatim>\<open>As\<close> is not
  modelled, and a message with such a piece has no text here.
\<close>

fun part_text :: "msg_part \<Rightarrow> string option" where
  "part_text (Lit s) = Some s"
| "part_text (Verb_s_BigFloat x) = Some (Format_s_BigFloat x)"
| "part_text _ = None"

fun message_text :: "message \<Rightarrow> string option" where
  "message_text [] = Some []"
| "message_text (p # ps) =
     (case part_text p of
        None \<Rightarrow> None
      | Some s \<Rightarrow> (case message_text ps of None \<Rightarrow> None | Some t \<Rightarrow> Some (s @ t)))"

text \<open>Whether a text occurs in another.\<close>

fun starts_with :: "string \<Rightarrow> string \<Rightarrow> bool" where
  "starts_with t [] = True"
| "starts_with [] (c # s) = False"
| "starts_with (a # t) (c # s) = (a = c \<and> starts_with t s)"

fun contains_text :: "string \<Rightarrow> string \<Rightarrow> bool" where
  "contains_text [] s = (s = [])"
| "contains_text (a # t) s = (starts_with (a # t) s \<or> contains_text t s)"

section \<open>The arithmetic of the narrowing\<close>

text \<open>
  The length of a mantissa, the rational value of a mantissa and an exponent, and what
  rounding to a precision does to both: the facts behind every statement on
  \<^verbatim>\<open>Float64\<close> below. \<open>Float64_sound\<close> and \<open>Float64_complete\<close> together say that the accuracy
  is \<open>Exact\<close> exactly when some float64 holds the big Float, and that the float64 returned
  is then that one.
\<close>

lemma bitLen_0 [simp]: "bitLen 0 = 0"
  by (simp add: bitLen.simps)

lemma bitLen_pos: "0 < n \<Longrightarrow> 0 < bitLen n"
  by (subst bitLen.simps) simp

lemma bitLen_eq_0_iff [simp]: "bitLen n = 0 \<longleftrightarrow> n = 0"
  by (subst bitLen.simps) simp

lemma bitLen_less: "n < 2 ^ bitLen n"
proof (induction n rule: bitLen.induct)
  case (1 n)
  show ?case
  proof (cases "n = 0")
    case True then show ?thesis by simp
  next
    case False
    with 1 have "n div 2 < 2 ^ bitLen (n div 2)" by simp
    then have "n < 2 * 2 ^ bitLen (n div 2)" by linarith
    with False show ?thesis by (subst bitLen.simps) simp
  qed
qed

lemma bitLen_ge: "0 < n \<Longrightarrow> 2 ^ (bitLen n - 1) \<le> n"
proof (induction n rule: bitLen.induct)
  case (1 n)
  show ?case
  proof (cases "n div 2 = 0")
    case True
    with 1 have "n = 1" by (simp add: div_eq_0_iff) 
    then show ?thesis by (simp add: bitLen.simps)
  next
    case False
    with 1 have "2 ^ (bitLen (n div 2) - 1) \<le> n div 2" by simp
    moreover have "0 < bitLen (n div 2)" using False by (simp add: bitLen_pos)
    ultimately have "2 ^ bitLen (n div 2) \<le> 2 * (n div 2)"
      by (cases "bitLen (n div 2)") simp_all
    also have "\<dots> \<le> n" by simp
    finally show ?thesis using 1(2) by (subst bitLen.simps) simp
  qed
qed

lemma bitLen_le_iff: "bitLen n \<le> k \<longleftrightarrow> n < 2 ^ k"
proof
  assume "bitLen n \<le> k"
  then have "(2::nat) ^ bitLen n \<le> 2 ^ k" by simp
  with bitLen_less [of n] show "n < 2 ^ k" by linarith
next
  assume lt: "n < 2 ^ k"
  show "bitLen n \<le> k"
  proof (cases "n = 0")
    case True then show ?thesis by simp
  next
    case False
    then have "2 ^ (bitLen n - 1) \<le> n" using bitLen_ge [of n] by simp
    with lt have "(2::nat) ^ (bitLen n - 1) < 2 ^ k" by linarith
    then have "bitLen n - 1 < k" by simp
    then show ?thesis by linarith
  qed
qed

lemma bitLen_gt_iff: "k < bitLen n \<longleftrightarrow> 2 ^ k \<le> n"
  using bitLen_le_iff [of n k] by linarith

lemma bitLen_eqI: "2 ^ k \<le> n \<Longrightarrow> n < 2 ^ Suc k \<Longrightarrow> bitLen n = Suc k"
  using bitLen_le_iff [of n "Suc k"] bitLen_gt_iff [of k n] by linarith

lemma bitLen_pow2 [simp]: "bitLen (2 ^ k) = Suc k"
  by (rule bitLen_eqI) simp_all

lemma bitLen_mult_pow2: "0 < n \<Longrightarrow> bitLen (n * 2 ^ k) = bitLen n + k"
proof -
  assume pos: "0 < n"
  then obtain l where l: "bitLen n = Suc l" using bitLen_pos [of n] by (cases "bitLen n") auto
  have "2 ^ l \<le> n" using l bitLen_gt_iff [of l n] by simp
  then have a: "2 ^ (l + k) \<le> n * 2 ^ k" by (simp add: power_add)
  have "n < 2 ^ Suc l" using l bitLen_less [of n] by simp
  then have "n * 2 ^ k < 2 ^ Suc l * 2 ^ k" by simp
  then have b: "n * 2 ^ k < 2 ^ Suc (l + k)" by (simp add: power_add)
  from bitLen_eqI [OF a b] l show ?thesis by simp
qed

lemma bitLen_div_pow2: "k \<le> bitLen n \<Longrightarrow> bitLen (n div 2 ^ k) = bitLen n - k"
proof (cases "k = bitLen n")
  case True
  then have "n div 2 ^ k = 0" using bitLen_less [of n] by simp
  with True show ?thesis by simp
next
  case False
  assume "k \<le> bitLen n"
  with False have lt: "k < bitLen n" by simp
  then obtain l where l: "bitLen n = Suc (k + l)" by (metis less_iff_Suc_add add_Suc_right)
  have "2 ^ (k + l) \<le> n" using l bitLen_gt_iff [of "k + l" n] by simp
  then have "2 ^ l * 2 ^ k \<le> n" by (simp add: power_add mult.commute)
  then have a: "2 ^ l \<le> n div 2 ^ k" by (simp add: less_eq_div_iff_mult_less_eq)
  have "n < 2 ^ Suc (k + l)" using l bitLen_less [of n] by simp
  then have "n < 2 ^ Suc l * 2 ^ k" by (simp add: power_add mult.commute)
  then have b: "n div 2 ^ k < 2 ^ Suc l" by (simp add: less_mult_imp_div_less)
  from bitLen_eqI [OF a b] l show ?thesis by simp
qed


lemma dyadic_inj: "dyadic a x = dyadic c x \<longleftrightarrow> a = c"
  by (simp add: dyadic_def)

lemma dyadic_shift: "dyadic (b * 2 ^ k) x = dyadic b (x + int k)"
proof -
  have pw: "dyadic m e = of_nat m * 2 powi e" for m e
    by (simp add: dyadic_def power_int_def field_simps power_inverse)
  show ?thesis
    by (simp add: pw power_int_add)
qed

lemma dyadic_eq_iff:
  "dyadic a x = dyadic b y \<longleftrightarrow>
     (if x \<le> y then a = b * 2 ^ nat (y - x) else b = a * 2 ^ nat (x - y))"
proof (cases "x \<le> y")
  case True
  have "dyadic b y = dyadic (b * 2 ^ nat (y - x)) x"
    using True by (simp add: dyadic_shift)
  with True show ?thesis by (simp add: dyadic_inj)
next
  case False
  have "dyadic a x = dyadic (a * 2 ^ nat (x - y)) y"
    using False by (simp add: dyadic_shift)
  with False show ?thesis by (auto simp: dyadic_inj)
qed

lemma dyadic_top:
  assumes "dyadic a x = dyadic b y" "0 < a" "0 < b"
  shows "x + int (bitLen a) = y + int (bitLen b)"
proof (cases "x \<le> y")
  case True
  with assms have "a = b * 2 ^ nat (y - x)" by (simp add: dyadic_eq_iff)
  then have "bitLen a = bitLen b + nat (y - x)" using assms by (simp add: bitLen_mult_pow2)
  with True show ?thesis by simp
next
  case False
  with assms have "b = a * 2 ^ nat (x - y)" by (simp add: dyadic_eq_iff)
  then have "bitLen b = bitLen a + nat (x - y)" using assms by (simp add: bitLen_mult_pow2)
  with False show ?thesis by simp
qed


lemma bitLen_mono: "a \<le> b \<Longrightarrow> bitLen a \<le> bitLen b"
  using bitLen_less [of b] by (simp add: bitLen_le_iff)

lemma round_prec_small: "bitLen m \<le> p \<Longrightarrow> round_prec p m e = (m, e, Exact)"
  by (simp add: round_prec_def)

lemma round_prec_multiple:
  assumes "p < bitLen m" "m = F * 2 ^ (bitLen m - p)"
  shows "round_prec p m e = (F, e + int (bitLen m - p), Exact)"
proof -
  have "m mod 2 ^ (bitLen m - p) = 0" "m div 2 ^ (bitLen m - p) = F"
    by (subst assms(2), simp)+
  with assms(1) show ?thesis by (simp add: round_prec_def Let_def)
qed

lemma round_prec_ExactD:
  assumes "round_prec p m e = (rm, rex, Exact)" "0 < m"
  shows "dyadic rm rex = dyadic m e \<and> 0 < rm \<and> bitLen rm \<le> p
         \<and> rex + int (bitLen rm) = e + int (bitLen m)"
proof (cases "bitLen m \<le> p")
  case True
  with assms show ?thesis by (simp add: round_prec_def)
next
  case False
  define s where "s = bitLen m - p"
  from False assms(1) have r: "m mod 2 ^ s = 0" and rm: "rm = m div 2 ^ s" and rex: "rex = e + int s"
    by (auto simp: round_prec_def Let_def s_def split: if_splits)
  from r rm have m: "m = rm * 2 ^ s" by (metis mod_eq_0_iff_dvd dvd_div_mult_self)
  with assms(2) have pos: "0 < rm" by (cases "rm = 0") simp_all
  have bl: "bitLen rm = bitLen m - s" unfolding rm using False by (simp add: bitLen_div_pow2 s_def)
  have "dyadic rm rex = dyadic m e" unfolding rex by (subst m) (simp add: dyadic_shift)
  with pos bl False show ?thesis by (simp add: rex s_def)
qed

lemma round_prec_top_ge:
  assumes "round_prec p m e = (rm, rex, acc)" "0 < p"
  shows "e + int (bitLen m) \<le> rex + int (bitLen rm)"
proof (cases "bitLen m \<le> p")
  case True
  with assms show ?thesis by (simp add: round_prec_def)
next
  case False
  define s where "s = bitLen m - p"
  define q where "q = m div 2 ^ s"
  have blq: "bitLen q = p" unfolding q_def using False by (simp add: bitLen_div_pow2 s_def)
  have "bitLen q \<le> bitLen (q + 1)" by (rule bitLen_mono) simp
  with blq have blq1: "p \<le> bitLen (q + 1)" by simp
  have blp: "bitLen ((2::nat) ^ (p - 1)) = p" using assms(2) by simp
  from False assms(1) have
    "(rm = q \<and> rex = e + int s) \<or> (rm = 2 ^ (p - 1) \<and> rex = e + int s + 1)
      \<or> (rm = q + 1 \<and> rex = e + int s)"
    by (auto simp: round_prec_def Let_def s_def q_def split: if_splits)
  with blq blq1 blp False show ?thesis by (auto simp: s_def)
qed

lemma signed_acc_Exact [simp]: "signed_acc neg acc = Exact \<longleftrightarrow> acc = Exact"
  by (cases acc) auto

lemma Float64_finite_overflow:
  assumes "1023 < ex + int (bitLen m) - 1"
  shows "Float64_finite neg m ex = (f64_inf neg, if neg then Below else Above)"
proof -
  obtain rm rex acc where rp: "round_prec 53 m ex = (rm, rex, acc)"
    by (cases "round_prec 53 m ex") auto
  from round_prec_top_ge [OF rp] have "ex + int (bitLen m) \<le> rex + int (bitLen rm)" by simp
  with assms rp show ?thesis
    by (simp add: Float64_finite_def Let_def emin_def emax_def bias_def mbits_def)
qed

lemma Float64_finite_ExactD:
  assumes "Float64_finite neg m ex = (f, Exact)"
    and "p = (if ex + int (bitLen m) - 1 < - 1022 then 1075 + (ex + int (bitLen m) - 1) else 53)"
    and "round_prec (nat p) m ex = (rm, rex, acc)"
  shows "0 < p \<and> acc = Exact \<and> rex + int (bitLen rm) - 1 \<le> 1023
         \<and> f = (if rex + int (bitLen rm) - 1 < - 1022
                then mk_float64 neg 0 (top_bits (1075 + (rex + int (bitLen rm) - 1)) rm)
                else mk_float64 neg (nat (rex + int (bitLen rm) - 1 + 1023))
                       (top_bits 53 rm mod 2 ^ 52))"
  using assms
  unfolding Float64_finite_def Let_def emin_def emax_def bias_def mbits_def
  by (auto split: if_splits)


lemma round_prec_representable:
  assumes eq: "dyadic F G = dyadic m ex" and F: "0 < F" and m: "0 < m"
  shows "\<exists>rm rex. round_prec (bitLen F) m ex = (rm, rex, Exact)
            \<and> top_bits (int (bitLen F)) rm = F
            \<and> rex + int (bitLen rm) = G + int (bitLen F)"
proof -
  from dyadic_top [OF eq F m] have top: "G + int (bitLen F) = ex + int (bitLen m)" .
  show ?thesis
  proof (cases "bitLen m \<le> bitLen F")
    case True
    with top have le: "G \<le> ex" and k: "nat (ex - G) = bitLen F - bitLen m" by linarith+
    from eq le have "F = m * 2 ^ nat (ex - G)" by (simp add: dyadic_eq_iff)
    with k True have "top_bits (int (bitLen F)) m = F"
      by (simp add: top_bits_def Let_def nat_diff_distrib' of_nat_diff)
    with True top show ?thesis by (simp add: round_prec_small)
  next
    case False
    with top have lt: "\<not> G \<le> ex" and k: "nat (G - ex) = bitLen m - bitLen F" by linarith+
    from eq lt have mF: "m = F * 2 ^ (bitLen m - bitLen F)" by (simp add: dyadic_eq_iff k)
    from False have "bitLen F < bitLen m" by simp
    from round_prec_multiple [OF this mF, of ex]
    have "round_prec (bitLen F) m ex = (F, ex + int (bitLen m - bitLen F), Exact)" .
    moreover have "top_bits (int (bitLen F)) F = F" by (simp add: top_bits_def)
    moreover have "ex + int (bitLen m - bitLen F) + int (bitLen F) = G + int (bitLen F)"
      using top False by linarith
    ultimately show ?thesis by simp
  qed
qed

lemma f64_bexp_mk: "be < 2048 \<Longrightarrow> unat (f64_bexp (mk_float64 s be mt)) = be"
  by (simp add: mk_float64_def unat_of_nat)

lemma f64_mant_mk: "mt < 2 ^ 52 \<Longrightarrow> unat (f64_mant (mk_float64 s be mt)) = mt"
  by (simp add: mk_float64_def unat_of_nat)

lemma f64_sign_mk [simp]: "f64_sign (mk_float64 s be mt) = s"
  by (simp add: mk_float64_def)

lemma mk_float64_fields [simp]:
  "mk_float64 (f64_sign f) (unat (f64_bexp f)) (unat (f64_mant f)) = f"
  by (simp add: mk_float64_def)

lemma f64_mant_less: "unat (f64_mant f) < 2 ^ 52"
  using unsigned_less [of "f64_mant f", where 'a = nat] by simp

lemma f64_bexp_less: "unat (f64_bexp f) < 2048"
  using unsigned_less [of "f64_bexp f", where 'a = nat] by simp

lemma Float64_finite_sound:
  assumes m: "0 < m" and fl: "Float64_finite neg m ex = (f, Exact)"
  shows "f64_represents f (BigFinite neg m ex)"
proof -
  define e where "e = ex + int (bitLen m) - 1"
  define p where "p = (if e < - 1022 then 1075 + e else 53)"
  obtain rm rex acc where rp: "round_prec (nat p) m ex = (rm, rex, acc)"
    by (cases "round_prec (nat p) m ex") auto
  have pp: "p = (if ex + int (bitLen m) - 1 < - 1022 then 1075 + (ex + int (bitLen m) - 1) else 53)"
    by (simp add: p_def e_def)
  from Float64_finite_ExactD [OF fl pp rp] have
    p: "0 < p" and acc: "acc = Exact" and
    f: "f = (if rex + int (bitLen rm) - 1 < - 1022
             then mk_float64 neg 0 (top_bits (1075 + (rex + int (bitLen rm) - 1)) rm)
             else mk_float64 neg (nat (rex + int (bitLen rm) - 1 + 1023))
                    (top_bits 53 rm mod 2 ^ 52))"
    and e'max: "rex + int (bitLen rm) - 1 \<le> 1023"
    by blast+
  from round_prec_ExactD [OF rp [unfolded acc] m] have
    val: "dyadic rm rex = dyadic m ex" and rm: "0 < rm" and len: "bitLen rm \<le> nat p"
    and top: "rex + int (bitLen rm) = ex + int (bitLen m)" by simp_all
  from top have e': "rex + int (bitLen rm) - 1 = e" by (simp add: e_def)
  show ?thesis
  proof (cases "e < - 1022")
    case True
    then have pe: "p = 1075 + e" by (simp add: p_def)
    define k where "k = nat (p - int (bitLen rm))"
    have k: "int k = p - int (bitLen rm)" using len p by (simp add: k_def)
    define T where "T = rm * 2 ^ k"
    have lep: "int (bitLen rm) \<le> p" using len p by linarith
    have tb: "top_bits (1075 + e) rm = T"
      using lep by (simp add: top_bits_def Let_def T_def pe [symmetric] k_def)
    have "bitLen T = bitLen rm + k" unfolding T_def using rm by (rule bitLen_mult_pow2)
    with k pe True have "bitLen T \<le> 52" by linarith
    then have T52: "T < 2 ^ 52" by (simp add: bitLen_le_iff)
    have ff: "f = mk_float64 neg 0 T" using f True by (simp add: e' tb)
    have b0: "f64_bexp f = 0" by (simp add: ff mk_float64_def)
    have sg: "f64_significand f = T"
      using T52 by (simp add: f64_significand_def b0) (simp add: ff f64_mant_mk)
    have ex74: "f64_exponent f = - 1074" by (simp add: f64_exponent_def b0)
    have "dyadic T (- 1074) = dyadic rm (- 1074 + int k)"
      unfolding T_def by (rule dyadic_shift)
    also have "- 1074 + int k = rex" using k pe e' by linarith
    finally have "dyadic T (- 1074) = dyadic m ex" using val by simp
    then show ?thesis by (simp add: b0 sg ex74) (simp add: ff)
  next
    case False
    then have pe: "p = 53" by (simp add: p_def)
    define k where "k = 53 - bitLen rm"
    have k: "bitLen rm + k = 53" using len pe by (simp add: k_def)
    define T where "T = rm * 2 ^ k"
    have lep: "bitLen rm \<le> 53" using len pe by simp
    have tb: "top_bits 53 rm = T"
      using lep by (simp add: top_bits_def Let_def T_def k_def nat_diff_distrib')
    have "bitLen T = bitLen rm + k" unfolding T_def using rm by (rule bitLen_mult_pow2)
    with k have bT: "bitLen T = 53" by simp
    then have T53: "T < 2 ^ 53" using bitLen_le_iff [of T 53] by simp
    have T52: "2 ^ 52 \<le> T" using bT bitLen_gt_iff [of 52 T] by simp
    have md: "T mod 2 ^ 52 = T - 2 ^ 52"
      using T52 T53 by (simp add: mod_if le_mod_geq)
    define be where "be = nat (e + 1023)"
    have be: "0 < be" "be < 2047" "int be = e + 1023" using False e'max e' by (simp_all add: be_def)
    have ff: "f = mk_float64 neg be (T - 2 ^ 52)" using f False unfolding e' tb md be_def by simp
    have ub: "unat (f64_bexp f) = be" using be by (simp add: ff f64_bexp_mk)
    then have bn0: "f64_bexp f \<noteq> 0" and bn: "f64_bexp f \<noteq> 2047" using be
      by (auto simp: unat_0_iff [symmetric])
    have um: "unat (f64_mant f) = T - 2 ^ 52" using T53 by (simp add: ff f64_mant_mk)
    have sg: "f64_significand f = T" using T52 by (simp add: f64_significand_def bn0 um)
    have exf: "f64_exponent f = e - 52" using be by (simp add: f64_exponent_def bn0 ub)
    have "dyadic T (e - 52) = dyadic rm (e - 52 + int k)"
      unfolding T_def by (rule dyadic_shift)
    also have "e - 52 + int k = rex" using k e' by linarith
    finally have "dyadic T (e - 52) = dyadic m ex" using val by simp
    then show ?thesis by (simp add: bn sg exf) (simp add: ff)
  qed
qed

lemma Float64_finite_denormal:
  assumes "e = ex + int (bitLen m) - 1" "e < - 1022" "0 < 1075 + e"
    and "round_prec (nat (1075 + e)) m ex = (rm, rex, acc)"
    and "e' = rex + int (bitLen rm) - 1" "e' < - 1022"
  shows "Float64_finite neg m ex =
           (mk_float64 neg 0 (top_bits (1075 + e') rm), signed_acc neg acc)"
  using assms by (simp add: Float64_finite_def Let_def emin_def emax_def bias_def mbits_def)

lemma Float64_finite_normal:
  assumes "e = ex + int (bitLen m) - 1" "- 1022 \<le> e"
    and "round_prec 53 m ex = (rm, rex, acc)"
    and "e' = rex + int (bitLen rm) - 1" "- 1022 \<le> e'" "e' \<le> 1023"
  shows "Float64_finite neg m ex =
           (mk_float64 neg (nat (e' + 1023)) (top_bits 53 rm mod 2 ^ 52), signed_acc neg acc)"
  using assms by (simp add: Float64_finite_def Let_def emin_def emax_def bias_def mbits_def)

lemma Float64_finite_complete:
  assumes m: "0 < m" and fin: "f64_bexp f \<noteq> 2047" and nz: "0 < f64_significand f"
    and val: "dyadic (f64_significand f) (f64_exponent f) = dyadic m ex"
  shows "Float64_finite (f64_sign f) m ex = (f, Exact)"
proof -
  define F where "F = f64_significand f"
  define G where "G = f64_exponent f"
  from round_prec_representable [OF val nz m] obtain rm rex where
    rp: "round_prec (bitLen F) m ex = (rm, rex, Exact)"
    and tb: "top_bits (int (bitLen F)) rm = F"
    and top': "rex + int (bitLen rm) = G + int (bitLen F)"
    unfolding F_def G_def by blast
  from dyadic_top [OF val nz m] have top: "ex + int (bitLen m) = G + int (bitLen F)"
    by (simp add: F_def G_def)
  show ?thesis
  proof (cases "f64_bexp f = 0")
    case True
    have F: "F = unat (f64_mant f)" and G: "G = - 1074"
      using True by (simp_all add: F_def G_def f64_significand_def f64_exponent_def)
    have "F < 2 ^ 52" unfolding F by (rule f64_mant_less)
    then have "bitLen F \<le> 52" by (simp add: bitLen_le_iff)
    moreover have "0 < bitLen F" using nz by (simp add: F_def bitLen_pos)
    moreover define e where "e = ex + int (bitLen m) - 1"
    moreover define e' where "e' = rex + int (bitLen rm) - 1"
    ultimately have e: "e < - 1022" and p: "nat (1075 + e) = bitLen F" and p0: "0 < 1075 + e"
      and e': "e' < - 1022" and p': "1075 + e' = int (bitLen F)"
      using top top' G by linarith+
    from Float64_finite_denormal [OF e_def e p0 rp [folded p] e'_def e', of "f64_sign f"]
    have "Float64_finite (f64_sign f) m ex = (mk_float64 (f64_sign f) 0 F, Exact)"
      by (simp add: p' tb)
    moreover have "mk_float64 (f64_sign f) 0 F = f"
      using mk_float64_fields [of f] by (simp add: True F)
    ultimately show ?thesis by simp
  next
    case False
    define be where "be = unat (f64_bexp f)"
    have "be \<noteq> 0" using False by (simp add: be_def unat_0_iff)
    moreover have "be \<noteq> 2047"
    proof
      assume "be = 2047"
      then have "of_nat (unat (f64_bexp f)) = (of_nat 2047 :: 11 word)" by (simp add: be_def)
      with fin show False by simp
    qed
    ultimately have be: "0 < be" "be < 2047" using f64_bexp_less [of f] by (simp_all add: be_def)
    have F: "F = 2 ^ 52 + unat (f64_mant f)" and G: "G = int be - 1075"
      using False by (simp_all add: F_def G_def f64_significand_def f64_exponent_def be_def)
    have "2 ^ 52 \<le> F" "F < 2 ^ 53" using f64_mant_less [of f] by (simp_all add: F)
    then have bF: "bitLen F = 53" using bitLen_eqI [of 52 F] by simp
    define e where "e = ex + int (bitLen m) - 1"
    define e' where "e' = rex + int (bitLen rm) - 1"
    have e: "- 1022 \<le> e" and e'1: "- 1022 \<le> e'" and e'2: "e' \<le> 1023"
      and b: "nat (e' + 1023) = be"
      using top top' G bF be by (simp_all add: e_def e'_def)
    have md: "F mod 2 ^ 52 = unat (f64_mant f)" using f64_mant_less [of f] by (simp add: F)
    from Float64_finite_normal [OF e_def e rp [unfolded bF] e'_def e'1 e'2, of "f64_sign f"]
    have "Float64_finite (f64_sign f) m ex
            = (mk_float64 (f64_sign f) be (unat (f64_mant f)), Exact)"
      using tb [unfolded bF] md by (simp add: b)
    then show ?thesis by (simp add: be_def)
  qed
qed

lemma dyadic_pos: "0 < m \<Longrightarrow> 0 < dyadic m e"
  by (simp add: dyadic_def)

lemma f64_zero_eq: "f64_is_zero f \<Longrightarrow> f64_zero (f64_sign f) = f"
  using mk_float64_fields [of f] by (simp add: f64_is_zero_def f64_zero_def)

lemma f64_inf_eq: "f64_is_inf f \<Longrightarrow> f64_inf (f64_sign f) = f"
  using mk_float64_fields [of f] by (simp add: f64_is_inf_def f64_inf_def)

lemma Float64_sound:
  assumes "bigfloat_ok x" "Float64 x = (f, Exact)"
  shows "f64_represents f x"
proof (cases x)
  case (BigZero neg)
  with assms show ?thesis by (auto simp: f64_zero_def mk_float64_def f64_is_zero_def)
next
  case (BigFinite neg m ex)
  with assms have "0 < m" "Float64_finite neg m ex = (f, Exact)" by simp_all
  from Float64_finite_sound [OF this] BigFinite show ?thesis by simp
next
  case (BigInf neg)
  with assms show ?thesis by (auto simp: f64_inf_def mk_float64_def f64_is_inf_def)
qed

lemma Float64_complete:
  assumes "bigfloat_ok x" "f64_represents f x"
  shows "Float64 x = (f, Exact)"
proof (cases x)
  case (BigZero neg)
  with assms have "f64_is_zero f" "f64_sign f = neg" by simp_all
  with f64_zero_eq [of f] BigZero show ?thesis by simp
next
  case (BigFinite neg m ex)
  with assms have m: "0 < m" and fin: "f64_bexp f \<noteq> 2047" and sg: "f64_sign f = neg"
    and val: "dyadic (f64_significand f) (f64_exponent f) = dyadic m ex" by simp_all
  have "0 < f64_significand f"
  proof (rule ccontr)
    assume "\<not> 0 < f64_significand f"
    then have "dyadic (f64_significand f) (f64_exponent f) = 0" by (simp add: dyadic_def)
    with val dyadic_pos [OF m, of ex] show False by simp
  qed
  from Float64_finite_complete [OF m fin this val] BigFinite sg show ?thesis by simp
next
  case (BigInf neg)
  with assms have "f64_is_inf f" "f64_sign f = neg" by simp_all
  with f64_inf_eq [of f] BigInf show ?thesis by simp
qed

lemma decimal_mantissa_large:
  "(2::nat) ^ 65 \<le> 179769313486231570814527423731704356798070 * 5 ^ 959"
proof -
  have a: "(2::nat) ^ 65 \<le> 179769313486231570814527423731704356798070" by simp
  have b: "(1::nat) \<le> 5 ^ 959" by (rule one_le_power) simp
  from mult_le_mono [OF a b] show ?thesis by (simp only: mult_1_right)
qed

lemma Float64_decimal: "Float64 decimal_1_797e1000 = (f64_inf False, Above)"
proof -
  have "65 < bitLen (179769313486231570814527423731704356798070 * 5 ^ 959)"
    using decimal_mantissa_large by (simp only: bitLen_gt_iff)
  then have "1023 < 959 + int (bitLen (179769313486231570814527423731704356798070 * 5 ^ 959)) - 1"
    by linarith
  from Float64_finite_overflow [OF this, of False] show ?thesis
    by (simp only: decimal_1_797e1000_def Float64.simps if_False)
qed

lemma decimal_ok: "bigfloat_ok decimal_1_797e1000"
proof -
  have "(0::nat) < 2 ^ 65" by simp
  from less_le_trans [OF this decimal_mantissa_large] show ?thesis
    by (simp only: decimal_1_797e1000_def bigfloat_ok.simps)
qed

lemma decimal_not_representable: "\<not> f64_represents f decimal_1_797e1000"
  using Float64_complete [OF decimal_ok, of f] Float64_decimal by auto

lemma Float64_decimal_at:
  assumes "0 < prec"
  shows "Float64 (decimal_1_797e1000_at prec) = (f64_inf False, Above)"
proof -
  obtain rm rex acc where
    rp: "round_prec prec (179769313486231570814527423731704356798070 * 5 ^ 959) 959
           = (rm, rex, acc)"
    using prod_cases3 by blast
  have "65 < bitLen (179769313486231570814527423731704356798070 * 5 ^ 959)"
    using decimal_mantissa_large by (simp only: bitLen_gt_iff)
  with round_prec_top_ge [OF rp assms] have "1023 < rex + int (bitLen rm) - 1"
    by linarith
  from Float64_finite_overflow [OF this, of False] show ?thesis
    by (simp only: decimal_1_797e1000_at_def rp prod.case Float64.simps if_False)
qed

text \<open>
  \<^verbatim>\<open>Validate\<close> and \<^verbatim>\<open>ValueFromTerraform\<close> on a Number that carries a big Float, and two
  numbers to run them on: 1.5 and the decimal above.
\<close>

lemma As_BigFloat_PBigFloat: "tf_value v = PBigFloat x \<Longrightarrow> As_BigFloat v = Inr (Some x)"
  by (simp add: As_BigFloat_def)

lemma Validate_PBigFloat:
  assumes "tf_typ in' = Some TfNumber" "tf_value in' = PBigFloat x"
  shows "Float64Type_Validate in' p =
           (if snd (Float64 x) \<noteq> Exact
            then Returns [NewAttributeErrorDiagnostic p validation_error_summary
                            (cannot_be_represented (Some x))]
            else Returns [])"
  using assms
  by (simp add: Float64Type_Validate_def tftype_Equal_def IsKnown_def IsNull_def
      As_BigFloat_PBigFloat AddAttributeError_def split: prod.splits)

lemma ValueFromTerraform_PBigFloat:
  assumes "tf_value in' = PBigFloat x"
  shows "Float64Type_ValueFromTerraform in' =
           (if snd (Float64 x) \<noteq> Exact
            then Returns (None, Some (Errorf (cannot_be_represented (Some x))))
            else Returns (Some (NewFloat64Value (fst (Float64 x))), None))"
  using assms
  by (simp add: Float64Type_ValueFromTerraform_def IsKnown_def IsNull_def
      As_BigFloat_PBigFloat split: prod.splits)

text \<open>Neither function reads through a nil pointer: a null value returns before.\<close>

lemma Validate_never_panics: "Float64Type_Validate in' p \<noteq> Panics pn"
  by (auto simp: Float64Type_Validate_def As_BigFloat_def IsNull_def IsKnown_def
      split: option.splits sum.splits outcome.splits tfpayload.splits prod.splits)

lemma ValueFromTerraform_never_panics: "Float64Type_ValueFromTerraform in' \<noteq> Panics pn"
  by (auto simp: Float64Type_ValueFromTerraform_def As_BigFloat_def IsNull_def IsKnown_def
      split: option.splits sum.splits outcome.splits tfpayload.splits prod.splits)

lemma Float64_1_5:
  "Float64_finite False 3 (- 1) = (mk_float64 False 1023 (2 ^ 51), Exact)"
  by (simp add: Float64_finite_def bitLen.simps round_prec_def emin_def emax_def bias_def
      mbits_def top_bits_def Let_def)

lemma represents_1_5:
  "f64_represents (mk_float64 False 1023 (2 ^ 51)) (BigFinite False 3 (- 1))"
  by (simp add: mk_float64_def f64_significand_def f64_exponent_def dyadic_def)

lemma not_representable_inexact:
  assumes "bigfloat_ok x" "\<forall>f. \<not> f64_represents f x"
  shows "snd (Float64 x) \<noteq> Exact"
proof
  assume "snd (Float64 x) = Exact"
  then have "Float64 x = (fst (Float64 x), Exact)" by (cases "Float64 x") simp
  from Float64_sound [OF assms(1) this] assms(2) show False by blast
qed

lemma big_of_float64_represents:
  assumes "\<not> f64_is_nan f"
  shows "\<exists>x. big_of_float64 f = Some x \<and> bigfloat_ok x \<and> f64_represents f x"
proof (cases "f64_is_zero f \<or> f64_is_inf f")
  case True
  with assms show ?thesis by (auto simp: big_of_float64_def)
next
  case False
  with assms have fin: "f64_bexp f \<noteq> 2047"
    by (auto simp: f64_is_nan_def f64_is_inf_def)
  have "0 < f64_significand f"
    using False by (auto simp: f64_significand_def f64_is_zero_def unat_gt_0)
  with assms False fin show ?thesis by (simp add: big_of_float64_def)
qed

lemma f64_nan_is_nan: "f64_is_nan f64_nan"
  by (simp add: f64_is_nan_def f64_nan_def mk_float64_def)

text \<open>
  Decoding never produces a NaN: a big Float is never one, and \<^verbatim>\<open>Float64\<close> rounds to a
  zero, a finite float64 or an infinity.
\<close>

lemma Float64_finite_never_NaN: "\<not> f64_is_nan (fst (Float64_finite neg m ex))"
proof -
  have mk: "\<not> f64_is_nan (mk_float64 s be mt)" if "be < 2047" for s be mt
    using that f64_bexp_mk [of be s mt] by (auto simp: f64_is_nan_def)
  have i: "\<not> f64_is_nan (f64_inf s)" for s
    by (simp add: f64_is_nan_def f64_inf_def mk_float64_def)
  show ?thesis
    unfolding Float64_finite_def Let_def emin_def emax_def bias_def mbits_def
    by (auto simp: f64_zero_def f64_smallest_nonzero_def mk i split: prod.splits)
qed

lemma ValueFromTerraform_never_NaN:
  assumes "Float64Type_ValueFromTerraform in' = Returns (Some v, None)"
  shows "\<not> f64_is_nan (fv_value v)"
proof (cases "tf_value in'")
  case (PBigFloat x)
  from assms have "fv_value v = fst (Float64 x)"
    by (auto simp: ValueFromTerraform_PBigFloat [OF PBigFloat] NewFloat64Value_def
        split: if_splits)
  moreover have "\<not> f64_is_nan (fst (Float64 x))"
    using Float64_finite_never_NaN
    by (cases x) (simp_all add: f64_is_nan_def f64_zero_def f64_inf_def mk_float64_def)
  ultimately show ?thesis by simp
qed (use assms in \<open>auto simp: Float64Type_ValueFromTerraform_def IsKnown_def IsNull_def
    As_BigFloat_def NewFloat64Unknown_def NewFloat64Null_def f64_is_nan_def f64_zero_def
    mk_float64_def\<close>)

text \<open>
  The text of the failure for the decimal above: its digits are those of
  \<open>179769313486231570814527423731704356798070\<close> followed by 959 zeros, of which
  \<^verbatim>\<open>String\<close> keeps ten.
\<close>

lemma decimal_digits_mult10:
  assumes "0 < a"
  shows "decimal_digits (a * 10) = decimal_digits a @ [0]"
proof -
  from assms have "\<not> a * 10 < 10" by simp
  then show ?thesis by (subst decimal_digits.simps) simp
qed

lemma decimal_digits_pow10:
  assumes "0 < a"
  shows "decimal_digits (a * 10 ^ k) = decimal_digits a @ replicate k 0"
proof (induction k)
  case 0
  show ?case by simp
next
  case (Suc k)
  have "a * 10 ^ Suc k = (a * 10 ^ k) * 10" by simp
  then have "decimal_digits (a * 10 ^ Suc k) = decimal_digits ((a * 10 ^ k) * 10)"
    by (simp only:)
  also have "\<dots> = decimal_digits (a * 10 ^ k) @ [0]"
    using assms by (intro decimal_digits_mult10) simp
  finally show ?case using Suc by (simp add: replicate_append_same)
qed

lemma trim_append_zeros: "trim (ds @ replicate k 0) = trim ds"
proof -
  have "dropWhile (\<lambda>d. d = 0) (replicate k (0::nat) @ ys) = dropWhile (\<lambda>d. d = 0) ys" for ys
    by (induction k) simp_all
  then show ?thesis by (simp add: trim_def)
qed

lemma decimal_init_nonneg:
  "0 \<le> shift \<Longrightarrow>
   decimal_init m shift =
     Decimal (trim (decimal_digits (m * 2 ^ nat shift)))
       (int (length (decimal_digits (m * 2 ^ nat shift))))"
  by (simp add: decimal_init_def Let_def)

lemma decimal_1_797e1000_integer:
  "(179769313486231570814527423731704356798070 * 5 ^ 959) * 2 ^ 959
     = (179769313486231570814527423731704356798070 :: nat) * 10 ^ 959"
proof -
  have "(5::nat) ^ 959 * 2 ^ 959 = (5 * 2) ^ 959" by (simp only: power_mult_distrib)
  also have "(5::nat) * 2 = 10" by simp
  finally show ?thesis by (simp only: mult.assoc)
qed

lemma decimal_1_797e1000_digits:
  "decimal_digits 179769313486231570814527423731704356798070 =
     [1,7,9,7,6,9,3,1,3,4,8,6,2,3,1,5,7,0,8,1,4,5,2,7,4,2,3,7,3,1,7,0,4,3,5,6,7,9,8,0,7,0]"
  by (simp add: decimal_digits.simps)

lemma decimal_init_decimal_1_797e1000:
  "decimal_init (179769313486231570814527423731704356798070 * 5 ^ 959) 959 =
     Decimal [1,7,9,7,6,9,3,1,3,4,8,6,2,3,1,5,7,0,8,1,4,5,2,7,4,2,3,7,3,1,7,0,4,3,5,6,7,9,8,0,7]
       1001"
proof -
  have n: "nat (959::int) = 959" by simp
  have d: "decimal_digits ((179769313486231570814527423731704356798070 * 5 ^ 959) * 2 ^ 959)
      = [1,7,9,7,6,9,3,1,3,4,8,6,2,3,1,5,7,0,8,1,4,5,2,7,4,2,3,7,3,1,7,0,4,3,5,6,7,9,8,0,7,0]
        @ replicate 959 0"
  proof -
    have "(0::nat) < 179769313486231570814527423731704356798070" by simp
    from decimal_digits_pow10 [OF this, of 959] show ?thesis
      by (simp only: decimal_1_797e1000_integer decimal_1_797e1000_digits)
  qed
  have t: "trim ([1,7,9,7,6,9,3,1,3,4,8,6,2,3,1,5,7,0,8,1,4,5,2,7,4,2,3,7,3,1,7,0,4,3,5,6,7,9,8,0,7,0]
                 @ replicate 959 0)
           = [1,7,9,7,6,9,3,1,3,4,8,6,2,3,1,5,7,0,8,1,4,5,2,7,4,2,3,7,3,1,7,0,4,3,5,6,7,9,8,0,7]"
    by (simp only: trim_append_zeros) (simp add: trim_def)
  have l: "int (length ([1,7,9,7,6,9,3,1,3,4,8,6,2,3,1,5,7,0,8,1,4,5,2,7,4,2,3,7,3,1,7,0,4,3,5,6,7,9,8,0,7,0::nat]
                 @ replicate 959 0)) = 1001"
    by simp
  have "(0::int) \<le> 959" by simp
  from decimal_init_nonneg [OF this, of "179769313486231570814527423731704356798070 * 5 ^ 959"]
  show ?thesis by (simp only: n d t l)
qed

lemma Float_String_decimal_1_797e1000:
  "Float_String decimal_1_797e1000 = ''1.797693135e+1000''"
proof -
  have "format_g 10
     (Decimal [1,7,9,7,6,9,3,1,3,4,8,6,2,3,1,5,7,0,8,1,4,5,2,7,4,2,3,7,3,1,7,0,4,3,5,6,7,9,8,0,7]
       1001) = ''1.797693135e+1000''"
    by (simp add: format_g_def decimal_round_def shouldRoundUp_def roundUp_def roundDown_def
        fmtE_def fmtF_def digits_text_def digit_char_def decimal_digits.simps trim_def Let_def)
  then show ?thesis
    by (simp only: Float_String_def decimal_1_797e1000_def Float_Text_g.simps
        decimal_init_decimal_1_797e1000 if_False append_Nil)
qed

lemma Float_String_2_53_1:
  "Float_String (BigFinite False 9007199254740993 0) = ''9.007199255e+15''"
  by (simp add: Float_String_def decimal_init_def format_g_def decimal_round_def shouldRoundUp_def
      roundUp_def roundDown_def fmtE_def fmtF_def digits_text_def digit_char_def
      decimal_digits.simps trim_def Let_def)

lemma message_text_cannot_be_represented:
  "message_text (cannot_be_represented v) =
     Some (''Value '' @ Format_s_BigFloat v @ '' cannot be represented as a 64-bit floating point.'')"
  by (simp add: cannot_be_represented_def)

section \<open>Type equality, wire type and name\<close>

text \<open>
  Claim C6. \<^verbatim>\<open>Float64Type.Equal(o)\<close> is true exactly when \<open>o\<close> is a \<^verbatim>\<open>Float64Type\<close>: the
  comparison looks at the kind of \<open>o\<close> only (a \<^verbatim>\<open>Float64Type\<close> is an empty struct, so there
  is one value of it), and it is false for the nil interface, for every other kind of
  type and for a struct that embeds \<^verbatim>\<open>Float64Type\<close>.
\<close>

theorem Float64Type_Equal_iff:
  "Float64Type_Equal o' = (o' = Some Float64Type)"
  by (cases o' rule: Float64Type_Equal.cases) simp_all

text \<open>
  Claim C8. \<^verbatim>\<open>Float64Type.TerraformType\<close> ignores its context and returns the wire type
  \<^verbatim>\<open>Number\<close>; \<^verbatim>\<open>Float64Type.String\<close> returns the name \<^verbatim>\<open>basetypes.Float64Type\<close>.
\<close>

theorem Float64Type_TerraformType_String:
  "Float64Type_TerraformType = TfNumber \<and> Float64Type_String = ''basetypes.Float64Type''"
  by (simp add: Float64Type_TerraformType_def Float64Type_String_def)

text \<open>
  Claim C7. A custom type that embeds \<^verbatim>\<open>Float64Type\<close> and declares no method of its own
  gives, on every input, the results of \<^verbatim>\<open>Float64Type\<close> for \<^verbatim>\<open>Equal\<close>, \<^verbatim>\<open>TerraformType\<close>,
  \<^verbatim>\<open>Validate\<close> and \<^verbatim>\<open>ValueFromTerraform\<close>.
\<close>

theorem CustomFloat64Type_same_as_base:
  "m_Equal CustomFloat64Type_methods o' = Float64Type_Equal o' \<and>
   m_TerraformType CustomFloat64Type_methods = Float64Type_TerraformType \<and>
   m_Validate CustomFloat64Type_methods in' p = Float64Type_Validate in' p \<and>
   m_ValueFromTerraform CustomFloat64Type_methods in' = Float64Type_ValueFromTerraform in'"
  by (simp add: CustomFloat64Type_methods_def embedding_def no_methods_def
      Float64Type_methods_def)

theorem CustomFloat64Type_same_as_base_witness:
  "m_Equal CustomFloat64Type_methods (Some (EmbeddingType ''CustomFloat64Type'' Float64Type))
     = False
   \<and> m_TerraformType CustomFloat64Type_methods = TfNumber
   \<and> m_Validate CustomFloat64Type_methods (TfValue (Some TfNumber) PNil) [] = Returns []
   \<and> m_ValueFromTerraform CustomFloat64Type_methods (TfValue (Some TfNumber) PNil)
       = Returns (Some NewFloat64Null, None)"
  using CustomFloat64Type_same_as_base
    [of "Some (EmbeddingType ''CustomFloat64Type'' Float64Type)" "TfValue (Some TfNumber) PNil" "[]"]
  by (simp add: Float64Type_TerraformType_def Float64Type_Validate_def tftype_Equal_def
      Float64Type_ValueFromTerraform_def IsKnown_def IsNull_def)

section \<open>Validation of the wire shape\<close>

lemma provider_error_prefix_text:
  "\<exists>a b. provider_error_prefix = a @ ''This is always an error in the provider.'' @ b"
  unfolding provider_error_prefix_def
  by (intro exI [of _ "''An unexpected error was encountered trying to validate an attribute value. ''"]
      exI [of _ "'' Please report the following to the provider developer:'' @ [CHR 0x0A, CHR 0x0A]"])
    simp

text \<open>
  Claim C9. \<^verbatim>\<open>Float64Type.Validate\<close> returns no diagnostic at all, at any path, for a wire
  value with a nil wire type, for a null Number and for an unknown Number.
\<close>

theorem Validate_nil_null_unknown_empty:
  assumes "tf_typ in' = None
           \<or> (tf_typ in' = Some TfNumber \<and> IsNull in')
           \<or> (tf_typ in' = Some TfNumber \<and> \<not> IsKnown in')"
  shows "Float64Type_Validate in' p = Returns []"
  using assms by (auto simp: Float64Type_Validate_def tftype_Equal_def)

theorem Validate_nil_null_unknown_empty_witness:
  "Float64Type_Validate (TfValue None PNil) [PathStepAttributeName ''a''] = Returns []
   \<and> Float64Type_Validate (TfValue (Some TfNumber) PNil) [PathStepAttributeName ''a''] = Returns []
   \<and> Float64Type_Validate (TfValue (Some TfNumber) PUnknown) [PathStepAttributeName ''a'']
       = Returns []"
  using Validate_nil_null_unknown_empty [of "TfValue None PNil" "[PathStepAttributeName ''a'']"]
    Validate_nil_null_unknown_empty [of "TfValue (Some TfNumber) PNil" "[PathStepAttributeName ''a'']"]
    Validate_nil_null_unknown_empty [of "TfValue (Some TfNumber) PUnknown" "[PathStepAttributeName ''a'']"]
  by (simp add: IsNull_def IsKnown_def)

text \<open>
  Claim C5. For a wire value whose wire type is not nil and not \<^verbatim>\<open>Number\<close>, whatever its
  payload, \<^verbatim>\<open>Float64Type.Validate\<close> returns exactly one diagnostic: an error at the given
  path whose detail says that this is always an error in the provider. The payload is
  not looked at: no other check runs.
\<close>

theorem Validate_wrong_wire_type:
  assumes "tf_typ in' = Some t" and "t \<noteq> TfNumber"
  shows "Float64Type_Validate in' p =
           Returns [\<lparr> d_severity = SeverityError,
                      d_summary = ''Float64 Type Validation Error'',
                      d_detail = [Lit provider_error_prefix,
                                  Lit ''Expected Number value, received '', Verb_T_Value in',
                                  Lit '' with value: '', Verb_v_Value in'],
                      d_path = p \<rparr>]
         \<and> (\<exists>a b. provider_error_prefix =
                a @ ''This is always an error in the provider.'' @ b)"
  using assms provider_error_prefix_text
  by (simp add: Float64Type_Validate_def tftype_Equal_def AddAttributeError_def
      NewAttributeErrorDiagnostic_def validation_error_summary_def)

theorem Validate_wrong_wire_type_witness:
  "Float64Type_Validate (TfValue (Some TfString) (PString ''x'')) [PathStepAttributeName ''a''] =
     Returns [\<lparr> d_severity = SeverityError,
                d_summary = ''Float64 Type Validation Error'',
                d_detail = [Lit provider_error_prefix,
                            Lit ''Expected Number value, received '',
                            Verb_T_Value (TfValue (Some TfString) (PString ''x'')),
                            Lit '' with value: '',
                            Verb_v_Value (TfValue (Some TfString) (PString ''x''))],
                d_path = [PathStepAttributeName ''a''] \<rparr>]"
  using Validate_wrong_wire_type [of "TfValue (Some TfString) (PString ''x'')" TfString
      "[PathStepAttributeName ''a'']"]
  by simp

section \<open>Narrowing\<close>

text \<open>
  Claim C1. At every path \<open>p\<close>, \<^verbatim>\<open>Float64Type.Validate\<close> of the known Number
  \<^verbatim>\<open>1.79769313486231570814527423731704356798070e+1000\<close> returns exactly one diagnostic: an
  error, at \<open>p\<close>, saying that the value cannot be represented as a 64-bit floating point.
  This holds for the decimal itself and for the decimal rounded to any precision \<open>prec > 0\<close>.
\<close>

theorem Validate_decimal_1_797e1000:
  "Float64Type_Validate (TfValue (Some TfNumber) (PBigFloat decimal_1_797e1000)) p =
     Returns [\<lparr> d_severity = SeverityError,
                d_summary = ''Float64 Type Validation Error'',
                d_detail = [Lit ''Value '', Verb_s_BigFloat (Some decimal_1_797e1000),
                            Lit '' cannot be represented as a 64-bit floating point.''],
                d_path = p \<rparr>]
   \<and> (0 < prec \<longrightarrow>
      Float64Type_Validate (TfValue (Some TfNumber) (PBigFloat (decimal_1_797e1000_at prec))) p =
        Returns [\<lparr> d_severity = SeverityError,
                   d_summary = ''Float64 Type Validation Error'',
                   d_detail = [Lit ''Value '', Verb_s_BigFloat (Some (decimal_1_797e1000_at prec)),
                               Lit '' cannot be represented as a 64-bit floating point.''],
                   d_path = p \<rparr>])"
  by (simp add: Validate_PBigFloat Float64_decimal Float64_decimal_at
      NewAttributeErrorDiagnostic_def validation_error_summary_def cannot_be_represented_def)

theorem Validate_decimal_1_797e1000_witness:
  "Float64Type_Validate (TfValue (Some TfNumber) (PBigFloat decimal_1_797e1000))
     [PathStepAttributeName ''float64_attribute''] =
     Returns [\<lparr> d_severity = SeverityError,
                d_summary = ''Float64 Type Validation Error'',
                d_detail = [Lit ''Value '', Verb_s_BigFloat (Some decimal_1_797e1000),
                            Lit '' cannot be represented as a 64-bit floating point.''],
                d_path = [PathStepAttributeName ''float64_attribute''] \<rparr>]
   \<and> Float64Type_Validate (TfValue (Some TfNumber) (PBigFloat (decimal_1_797e1000_at 512)))
     [PathStepAttributeName ''float64_attribute''] =
     Returns [\<lparr> d_severity = SeverityError,
                d_summary = ''Float64 Type Validation Error'',
                d_detail = [Lit ''Value '', Verb_s_BigFloat (Some (decimal_1_797e1000_at 512)),
                            Lit '' cannot be represented as a 64-bit floating point.''],
                d_path = [PathStepAttributeName ''float64_attribute''] \<rparr>]"
  using Validate_decimal_1_797e1000 [of "[PathStepAttributeName ''float64_attribute'']" 512]
  by simp

text \<open>
  Claim C10. On a wire value of wire type \<^verbatim>\<open>Number\<close>, at every path, \<^verbatim>\<open>Float64Type.Validate\<close>
  returns no diagnostic exactly when \<^verbatim>\<open>Float64Type.ValueFromTerraform\<close> returns a value and
  a nil error.
\<close>

theorem Validate_agrees_with_ValueFromTerraform:
  assumes "tf_typ in' = Some TfNumber"
  shows "Float64Type_Validate in' p = Returns [] \<longleftrightarrow>
         (\<exists>v. Float64Type_ValueFromTerraform in' = Returns (Some v, None))"
  using assms
  by (auto simp: Float64Type_Validate_def Float64Type_ValueFromTerraform_def tftype_Equal_def
      AddAttributeError_def As_BigFloat_def IsNull_def IsKnown_def
      split: sum.splits outcome.splits option.splits tfpayload.splits prod.splits)

theorem Validate_agrees_with_ValueFromTerraform_witness:
  "tf_typ (TfValue (Some TfNumber) (PBigFloat (BigFinite False 3 (- 1)))) = Some TfNumber
   \<and> Float64Type_Validate (TfValue (Some TfNumber) (PBigFloat (BigFinite False 3 (- 1)))) []
       = Returns []
   \<and> (\<exists>v. Float64Type_ValueFromTerraform
              (TfValue (Some TfNumber) (PBigFloat (BigFinite False 3 (- 1))))
            = Returns (Some v, None))
   \<and> Float64Type_Validate (TfValue (Some TfNumber) (PBigFloat decimal_1_797e1000)) [] \<noteq> Returns []
   \<and> (\<nexists>v. Float64Type_ValueFromTerraform (TfValue (Some TfNumber) (PBigFloat decimal_1_797e1000))
            = Returns (Some v, None))"
proof -
  have a: "Float64Type_Validate (TfValue (Some TfNumber) (PBigFloat (BigFinite False 3 (- 1)))) []
             = Returns []"
    by (simp add: Validate_PBigFloat Float64_1_5)
  have b: "Float64Type_Validate (TfValue (Some TfNumber) (PBigFloat decimal_1_797e1000)) []
             \<noteq> Returns []"
    by (simp add: Validate_PBigFloat Float64_decimal)
  from a b
    Validate_agrees_with_ValueFromTerraform
      [of "TfValue (Some TfNumber) (PBigFloat (BigFinite False 3 (- 1)))" "[]"]
    Validate_agrees_with_ValueFromTerraform
      [of "TfValue (Some TfNumber) (PBigFloat decimal_1_797e1000)" "[]"]
  show ?thesis by simp
qed

text \<open>
  Claim C2, as amended. \<^verbatim>\<open>Float64Type.ValueFromTerraform\<close> has four outcomes. It returns
  the Unknown value and no error for every unknown wire value, and the Null value and no
  error for every null wire value. For a value that carries a big Float \<open>x\<close>, as every
  known, non-null Number does, it returns either a Known value whose float64 holds \<open>x\<close>
  exactly and no error, or no value and the error that \<open>x\<close> cannot be represented as a
  64-bit floating point, and then no float64 holds \<open>x\<close> exactly. For every other known,
  non-null value it returns no value and the error of \<^verbatim>\<open>As\<close>. On a Number the first three
  are all there is.
\<close>

theorem ValueFromTerraform_four_branches:
  "(\<not> IsKnown in' \<longrightarrow>
      Float64Type_ValueFromTerraform in' = Returns (Some NewFloat64Unknown, None))
   \<and> (IsNull in' \<longrightarrow>
      Float64Type_ValueFromTerraform in' = Returns (Some NewFloat64Null, None))
   \<and> (tf_value in' = PBigFloat x \<and> bigfloat_ok x \<longrightarrow>
        (\<exists>f. f64_represents f x \<and>
              Float64Type_ValueFromTerraform in' = Returns (Some (NewFloat64Value f), None))
         \<or> ((\<forall>f. \<not> f64_represents f x) \<and>
              Float64Type_ValueFromTerraform in' =
                Returns (None, Some (Errorf (cannot_be_represented (Some x))))))
   \<and> (IsKnown in' \<and> \<not> IsNull in' \<and> (\<forall>y. tf_value in' \<noteq> PBigFloat y) \<longrightarrow>
        Float64Type_ValueFromTerraform in' =
          Returns (None, Some (TfError (CantUnmarshalBigFloat (tf_typ in')))))
   \<and> (number_value_ok in' \<longrightarrow>
        \<not> IsKnown in' \<or> IsNull in' \<or> (\<exists>y. tf_value in' = PBigFloat y \<and> bigfloat_ok y))"
proof (intro conjI impI)
  assume "\<not> IsKnown in'"
  then show "Float64Type_ValueFromTerraform in' = Returns (Some NewFloat64Unknown, None)"
    by (simp add: Float64Type_ValueFromTerraform_def)
next
  assume "IsNull in'"
  then show "Float64Type_ValueFromTerraform in' = Returns (Some NewFloat64Null, None)"
    by (simp add: Float64Type_ValueFromTerraform_def IsNull_def IsKnown_def)
next
  assume "tf_value in' = PBigFloat x \<and> bigfloat_ok x"
  then have x: "tf_value in' = PBigFloat x" and ok: "bigfloat_ok x" by simp_all
  obtain f acc where fl: "Float64 x = (f, acc)" by (cases "Float64 x") auto
  show "(\<exists>f. f64_represents f x \<and>
              Float64Type_ValueFromTerraform in' = Returns (Some (NewFloat64Value f), None))
         \<or> ((\<forall>f. \<not> f64_represents f x) \<and>
              Float64Type_ValueFromTerraform in' =
                Returns (None, Some (Errorf (cannot_be_represented (Some x)))))"
  proof (cases "acc = Exact")
    case True
    with fl ok have "f64_represents f x" by (simp add: Float64_sound)
    moreover have "Float64Type_ValueFromTerraform in' = Returns (Some (NewFloat64Value f), None)"
      using True fl by (simp add: ValueFromTerraform_PBigFloat [OF x])
    ultimately show ?thesis by blast
  next
    case False
    have "\<not> f64_represents g x" for g
      using Float64_complete [OF ok, of g] fl False by auto
    moreover have "Float64Type_ValueFromTerraform in' =
        Returns (None, Some (Errorf (cannot_be_represented (Some x))))"
      using False fl by (simp add: ValueFromTerraform_PBigFloat [OF x])
    ultimately show ?thesis by blast
  qed
next
  assume "IsKnown in' \<and> \<not> IsNull in' \<and> (\<forall>y. tf_value in' \<noteq> PBigFloat y)"
  then show "Float64Type_ValueFromTerraform in' =
          Returns (None, Some (TfError (CantUnmarshalBigFloat (tf_typ in'))))"
    by (cases "tf_value in'")
       (simp_all add: Float64Type_ValueFromTerraform_def IsKnown_def IsNull_def As_BigFloat_def)
next
  assume "number_value_ok in'"
  then show "\<not> IsKnown in' \<or> IsNull in' \<or> (\<exists>y. tf_value in' = PBigFloat y \<and> bigfloat_ok y)"
    by (cases "tf_value in'") (simp_all add: number_value_ok_def IsKnown_def IsNull_def)
qed

theorem ValueFromTerraform_four_branches_witness:
  "Float64Type_ValueFromTerraform (TfValue (Some TfNumber) PUnknown)
     = Returns (Some NewFloat64Unknown, None)
   \<and> Float64Type_ValueFromTerraform (TfValue (Some TfNumber) PNil)
     = Returns (Some NewFloat64Null, None)
   \<and> f64_represents (mk_float64 False 1023 (2 ^ 51)) (BigFinite False 3 (- 1))
   \<and> Float64Type_ValueFromTerraform (TfValue (Some TfNumber) (PBigFloat (BigFinite False 3 (- 1))))
     = Returns (Some (NewFloat64Value (mk_float64 False 1023 (2 ^ 51))), None)
   \<and> Float64Type_ValueFromTerraform (TfValue (Some TfNumber) (PBigFloat decimal_1_797e1000))
     = Returns (None, Some (Errorf (cannot_be_represented (Some decimal_1_797e1000))))
   \<and> Float64Type_ValueFromTerraform (TfValue (Some TfString) (PString ''x''))
     = Returns (None, Some (TfError (CantUnmarshalBigFloat (Some TfString))))
   \<and> number_value_ok (TfValue (Some TfNumber) (PBigFloat (BigFinite False 3 (- 1))))"
proof -
  let ?u = "TfValue (Some TfNumber) PUnknown"
  let ?n = "TfValue (Some TfNumber) PNil"
  let ?a = "TfValue (Some TfNumber) (PBigFloat (BigFinite False 3 (- 1)))"
  let ?d = "TfValue (Some TfNumber) (PBigFloat decimal_1_797e1000)"
  let ?s = "TfValue (Some TfString) (PString ''x'')"
  have u: "\<not> IsKnown ?u" and n: "IsNull ?n" by (simp_all add: IsKnown_def IsNull_def)
  have a: "tf_value ?a = PBigFloat (BigFinite False 3 (- 1)) \<and> bigfloat_ok (BigFinite False 3 (- 1))"
    by simp
  have d: "tf_value ?d = PBigFloat decimal_1_797e1000 \<and> bigfloat_ok decimal_1_797e1000"
    by (simp add: decimal_ok)
  have s: "IsKnown ?s \<and> \<not> IsNull ?s \<and> (\<forall>y. tf_value ?s \<noteq> PBigFloat y)"
    by (simp add: IsKnown_def IsNull_def)
  have ok: "number_value_ok ?a" by (simp add: number_value_ok_def)
  have ra: "f64_represents (mk_float64 False 1023 (2 ^ 51)) (BigFinite False 3 (- 1))"
    by (rule represents_1_5)
  from u ValueFromTerraform_four_branches [of ?u]
  have 1: "Float64Type_ValueFromTerraform ?u = Returns (Some NewFloat64Unknown, None)" by blast
  from n ValueFromTerraform_four_branches [of ?n]
  have 2: "Float64Type_ValueFromTerraform ?n = Returns (Some NewFloat64Null, None)" by blast
  from a ra ValueFromTerraform_four_branches [of ?a "BigFinite False 3 (- 1)"]
  have "\<exists>f. Float64Type_ValueFromTerraform ?a = Returns (Some (NewFloat64Value f), None)"
    by blast
  then have 3: "Float64Type_ValueFromTerraform ?a
      = Returns (Some (NewFloat64Value (mk_float64 False 1023 (2 ^ 51))), None)"
    by (simp add: ValueFromTerraform_PBigFloat Float64_1_5)
  from d decimal_not_representable ValueFromTerraform_four_branches [of ?d decimal_1_797e1000]
  have 4: "Float64Type_ValueFromTerraform ?d
     = Returns (None, Some (Errorf (cannot_be_represented (Some decimal_1_797e1000))))"
    by blast
  from s ValueFromTerraform_four_branches [of ?s]
  have 5: "Float64Type_ValueFromTerraform ?s
     = Returns (None, Some (TfError (CantUnmarshalBigFloat (Some TfString))))"
    by simp
  from 1 2 ra 3 4 5 ok show ?thesis by blast
qed

text \<open>
  The claim as first stated counts exactly three outcomes: a known String on the wire
  takes the fourth, the error of \<^verbatim>\<open>As\<close>.
\<close>

theorem ValueFromTerraform_fourth_exit:
  "Float64Type_ValueFromTerraform (TfValue (Some TfString) (PString ''x''))
     = Returns (None, Some (TfError (CantUnmarshalBigFloat (Some TfString))))"
  by (simp add: Float64Type_ValueFromTerraform_def IsKnown_def IsNull_def As_BigFloat_def)

text \<open>
  Claim C3, as amended. When a known Number carries a big Float that no float64 holds
  exactly, \<^verbatim>\<open>Float64Type.Validate\<close> reports it, at the given path, as exactly one error
  diagnostic with the summary \<^verbatim>\<open>Float64 Type Validation Error\<close>, whose detail starts with
  \<^verbatim>\<open>Value\<close> and ends with \<^verbatim>\<open>cannot be represented as a 64-bit floating point.\<close>;
  \<^verbatim>\<open>Float64Type.ValueFromTerraform\<close> returns no value and an error with the same text: the
  conversion fails, it collects no diagnostic. What the text says of the value is left
  open.
\<close>

theorem narrowing_failure_reported:
  assumes "number_value_ok in'" and "tf_value in' = PBigFloat x"
    and "\<forall>f. \<not> f64_represents f x"
  shows "\<exists>detail r.
           Float64Type_Validate in' p =
             Returns [\<lparr> d_severity = SeverityError,
                        d_summary = ''Float64 Type Validation Error'',
                        d_detail = detail,
                        d_path = p \<rparr>]
           \<and> Float64Type_ValueFromTerraform in' = Returns (None, Some (Errorf detail))
           \<and> message_text detail =
               Some (''Value '' @ r @ '' cannot be represented as a 64-bit floating point.'')"
proof -
  from assms(1,2) have t: "tf_typ in' = Some TfNumber" and ok: "bigfloat_ok x"
    by (simp_all add: number_value_ok_def)
  from not_representable_inexact [OF ok assms(3)] have "snd (Float64 x) \<noteq> Exact" .
  then have "Float64Type_Validate in' p =
             Returns [\<lparr> d_severity = SeverityError,
                        d_summary = ''Float64 Type Validation Error'',
                        d_detail = cannot_be_represented (Some x),
                        d_path = p \<rparr>]
           \<and> Float64Type_ValueFromTerraform in' =
               Returns (None, Some (Errorf (cannot_be_represented (Some x))))"
    by (simp add: Validate_PBigFloat [OF t assms(2)] ValueFromTerraform_PBigFloat [OF assms(2)]
        NewAttributeErrorDiagnostic_def validation_error_summary_def)
  with message_text_cannot_be_represented [of "Some x"] show ?thesis by blast
qed

theorem narrowing_failure_reported_witness:
  "number_value_ok (TfValue (Some TfNumber) (PBigFloat decimal_1_797e1000))
   \<and> (\<forall>f. \<not> f64_represents f decimal_1_797e1000)
   \<and> (\<exists>detail r.
         Float64Type_Validate (TfValue (Some TfNumber) (PBigFloat decimal_1_797e1000)) [] =
           Returns [\<lparr> d_severity = SeverityError,
                      d_summary = ''Float64 Type Validation Error'',
                      d_detail = detail,
                      d_path = [] \<rparr>]
         \<and> Float64Type_ValueFromTerraform (TfValue (Some TfNumber) (PBigFloat decimal_1_797e1000))
             = Returns (None, Some (Errorf detail))
         \<and> message_text detail =
             Some (''Value '' @ r @ '' cannot be represented as a 64-bit floating point.''))"
proof -
  have ok: "number_value_ok (TfValue (Some TfNumber) (PBigFloat decimal_1_797e1000))"
    by (simp add: number_value_ok_def decimal_ok)
  have nr: "\<forall>f. \<not> f64_represents f decimal_1_797e1000"
    by (simp add: decimal_not_representable)
  from narrowing_failure_reported [OF ok _ nr, of "[]"] ok nr show ?thesis by simp
qed

text \<open>
  The claim as first stated fails twice on the decimal
  \<^verbatim>\<open>1.79769313486231570814527423731704356798070e+1000\<close>. \<^verbatim>\<open>ValueFromTerraform\<close> returns the
  nil value and an error, where the claim has it collect a diagnostic and go on. And the
  text, of \<^verbatim>\<open>Validate\<close> and of \<^verbatim>\<open>ValueFromTerraform\<close> alike, does not hold the decimal: the
  format gives a \<^verbatim>\<open>*big.Float\<close> to the verb \<^verbatim>\<open>%s\<close>, which prints ten digits of it inside
  the mark of a bad verb.
\<close>

theorem narrowing_failure_aborts_and_misprints:
  "Float64Type_ValueFromTerraform (TfValue (Some TfNumber) (PBigFloat decimal_1_797e1000)) =
     Returns (None, Some (Errorf (cannot_be_represented (Some decimal_1_797e1000))))
   \<and> Float64Type_Validate (TfValue (Some TfNumber) (PBigFloat decimal_1_797e1000)) [] =
       Returns [\<lparr> d_severity = SeverityError,
                  d_summary = ''Float64 Type Validation Error'',
                  d_detail = cannot_be_represented (Some decimal_1_797e1000),
                  d_path = [] \<rparr>]
   \<and> message_text (cannot_be_represented (Some decimal_1_797e1000)) =
       Some (''Value %!s('' @ ''*big.Float=1.797693135e+1000) '' @
             ''cannot be represented as a 64-bit floating point.'')
   \<and> \<not> contains_text
         (''Value %!s('' @ ''*big.Float=1.797693135e+1000) '' @
          ''cannot be represented as a 64-bit floating point.'')
         ''79769313486''"
proof -
  have 1: "Float64Type_ValueFromTerraform (TfValue (Some TfNumber) (PBigFloat decimal_1_797e1000)) =
     Returns (None, Some (Errorf (cannot_be_represented (Some decimal_1_797e1000))))"
    by (simp add: ValueFromTerraform_PBigFloat Float64_decimal)
  have 2: "Float64Type_Validate (TfValue (Some TfNumber) (PBigFloat decimal_1_797e1000)) [] =
       Returns [\<lparr> d_severity = SeverityError,
                  d_summary = ''Float64 Type Validation Error'',
                  d_detail = cannot_be_represented (Some decimal_1_797e1000),
                  d_path = [] \<rparr>]"
    by (simp add: Validate_PBigFloat Float64_decimal NewAttributeErrorDiagnostic_def
        validation_error_summary_def)
  have 3: "message_text (cannot_be_represented (Some decimal_1_797e1000)) =
       Some (''Value %!s('' @ ''*big.Float=1.797693135e+1000) '' @
             ''cannot be represented as a 64-bit floating point.'')"
    by (simp add: message_text_cannot_be_represented Format_s_BigFloat_def
        Float_String_decimal_1_797e1000)
  have 4: "\<not> contains_text
         (''Value %!s('' @ ''*big.Float=1.797693135e+1000) '' @
          ''cannot be represented as a 64-bit floating point.'')
         ''79769313486''"
    by simp
  from 1 2 3 4 show ?thesis by blast
qed

section \<open>Round trip\<close>

text \<open>
  Claim C4, as amended. For every Known Float64 value whose float64 payload is not a NaN,
  the value has a wire value, and \<^verbatim>\<open>Float64Type.ValueFromTerraform\<close> of that wire value
  returns, with no error, the very same Known value, which equals the one encoded.
\<close>

theorem round_trip_not_NaN:
  assumes "\<not> f64_is_nan f"
  shows "round_trips (NewFloat64Value f)
         \<and> (\<exists>w. Float64Value_ToTerraformValue (NewFloat64Value f) = Some w
                \<and> Float64Type_ValueFromTerraform w = Returns (Some (NewFloat64Value f), None))"
proof -
  from big_of_float64_represents [OF assms] obtain x where
    x: "big_of_float64 f = Some x" and ok: "bigfloat_ok x" and r: "f64_represents f x" by blast
  define w where "w = TfValue (Some TfNumber) (PBigFloat x)"
  have tw: "Float64Value_ToTerraformValue (NewFloat64Value f) = Some w"
    by (simp add: Float64Value_ToTerraformValue_def NewFloat64Value_def x w_def)
  have "Float64 x = (f, Exact)" using ok r by (rule Float64_complete)
  moreover have "tf_value w = PBigFloat x" by (simp add: w_def)
  ultimately have fw: "Float64Type_ValueFromTerraform w = Returns (Some (NewFloat64Value f), None)"
    by (simp add: ValueFromTerraform_PBigFloat)
  have "Float64Value_Equal (NewFloat64Value f) (NewFloat64Value f)"
    using assms by (simp add: Float64Value_Equal_def NewFloat64Value_def f64_eq_def)
  with tw fw show ?thesis by (simp add: round_trips_def)
qed

theorem round_trip_not_NaN_witness:
  "\<not> f64_is_nan (mk_float64 False 1023 (2 ^ 51))
   \<and> Float64Value_ToTerraformValue (NewFloat64Value (mk_float64 False 1023 (2 ^ 51)))
       = Some (TfValue (Some TfNumber) (PBigFloat (BigFinite False (3 * 2 ^ 51) (- 52))))
   \<and> round_trips (NewFloat64Value (mk_float64 False 1023 (2 ^ 51)))"
proof -
  have n: "\<not> f64_is_nan (mk_float64 False 1023 (2 ^ 51))"
    by (simp add: f64_is_nan_def mk_float64_def)
  have "Float64Value_ToTerraformValue (NewFloat64Value (mk_float64 False 1023 (2 ^ 51)))
       = Some (TfValue (Some TfNumber) (PBigFloat (BigFinite False (3 * 2 ^ 51) (- 52))))"
    by (simp add: Float64Value_ToTerraformValue_def NewFloat64Value_def big_of_float64_def
        f64_is_nan_def f64_is_zero_def f64_is_inf_def f64_significand_def f64_exponent_def
        mk_float64_def)
  with n round_trip_not_NaN [OF n] show ?thesis by simp
qed

text \<open>
  The claim as first stated is for every float64 payload: the Known value of a NaN has no
  wire value, no wire value decodes to a NaN (\<open>ValueFromTerraform_never_NaN\<close>), and a
  NaN equals nothing.
\<close>

theorem round_trip_NaN_fails:
  "\<not> round_trips (NewFloat64Value f64_nan)"
  using f64_nan_is_nan
  by (simp add: round_trips_def Float64Value_ToTerraformValue_def NewFloat64Value_def
      big_of_float64_def)

end
